theory Spec2Isabelle
  imports Complex_Main "HOL-Library.Multiset"
begin

section \<open>Exceptions\<close>

text \<open>
  The exception classes the program raises itself or receives from the library calls it
  makes. All of them are subclasses of Python's \<open>Exception\<close>; signals that only derive
  from \<open>BaseException\<close> (a keyboard interrupt, an interpreter exit) are not modelled.
  Messages are left out: a handler of the program only ever looks at the class.
\<close>

datatype exn =
    ValueError
  | TypeError
  | AttributeError
  | IndexError
  | KeyError
  | ZeroDivisionError
  | OverflowError
  | FileNotFoundError
  | NotADirectoryError
  | OSError
  | CalledProcessError
  | UnicodeDecodeError
  | JSONDecodeError
  | SyntaxError
  | NameError

section \<open>Floating-point numbers\<close>

text \<open>
  A Python float is an IEEE 754 double: a finite value, one of the two infinities, or
  NaN. A finite double is given by the real number it denotes. The sign of a zero is not
  kept: \<open>-0.0\<close> compares equal to \<open>0.0\<close> and \<open>int(-0.0)\<close> is \<open>0\<close>.
\<close>

datatype pyfloat = Fin real | PosInf | NegInf | NaN

text \<open>The exponent of a positive real: \<open>ilog2 a = e\<close> when \<open>2^e <= a < 2^(e+1)\<close>.\<close>

function ilog2 :: "real \<Rightarrow> int" where
  "ilog2 a = (if a \<le> 0 then 0
              else if 2 \<le> a then ilog2 (a / 2) + 1
              else if a < 1 then ilog2 (a * 2) - 1
              else 0)"
  by pat_completeness auto
termination
proof (relation "measure (\<lambda>a. nat (2 * \<lceil>1 / a\<rceil> + \<lfloor>a\<rfloor>))")
  show "wf (measure (\<lambda>a. nat (2 * \<lceil>1 / a\<rceil> + \<lfloor>a\<rfloor>)))" by simp
next
  fix a :: real
  assume "\<not> a \<le> 0" "2 \<le> a"
  then have f: "\<lfloor>a / 2\<rfloor> < \<lfloor>a\<rfloor>" by linarith
  have c1: "\<lceil>1 / (a / 2)\<rceil> = 1" using \<open>2 \<le> a\<close> by (simp add: ceiling_eq_iff)
  have c2: "\<lceil>1 / a\<rceil> = 1" using \<open>2 \<le> a\<close> by (simp add: ceiling_eq_iff)
  have h0: "0 \<le> \<lfloor>a / 2\<rfloor>" using \<open>2 \<le> a\<close> by simp
  have "nat (2 * \<lceil>1 / (a / 2)\<rceil> + \<lfloor>a / 2\<rfloor>) < nat (2 * \<lceil>1 / a\<rceil> + \<lfloor>a\<rfloor>)"
    unfolding c1 c2 using f h0 by linarith
  then show "(a / 2, a) \<in> measure (\<lambda>a. nat (2 * \<lceil>1 / a\<rceil> + \<lfloor>a\<rfloor>))"
    by (simp only: in_measure)
next
  fix a :: real
  assume a: "\<not> a \<le> 0" "\<not> 2 \<le> a" "a < 1"
  define y where "y = 1 / a"
  have y: "1 < y" using a by (simp add: y_def)
  have e: "1 / (a * 2) = y / 2" by (simp add: y_def)
  have n2: "2 \<le> \<lceil>y\<rceil>" using y by (simp add: le_ceiling_iff)
  then have r2: "(2::real) \<le> of_int \<lceil>y\<rceil>" by linarith
  have r1: "y \<le> of_int \<lceil>y\<rceil>" by (rule le_of_int_ceiling)
  from r1 r2 have "y / 2 \<le> of_int \<lceil>y\<rceil> - 1" by linarith
  then have "y / 2 \<le> of_int (\<lceil>y\<rceil> - 1)" by simp
  then have "\<lceil>y / 2\<rceil> \<le> \<lceil>y\<rceil> - 1" by (rule ceiling_le)
  then have c: "\<lceil>y / 2\<rceil> < \<lceil>y\<rceil>" by simp
  have f0: "\<lfloor>a\<rfloor> = 0" using a by (simp add: floor_eq_iff)
  have f1: "\<lfloor>a * 2\<rfloor> \<le> 1" using a by (simp add: floor_le_iff)
  have f2: "0 \<le> \<lfloor>a * 2\<rfloor>" using a by simp
  have c0: "0 < \<lceil>y / 2\<rceil>" using y by simp
  have "nat (2 * \<lceil>1 / (a * 2)\<rceil> + \<lfloor>a * 2\<rfloor>) < nat (2 * \<lceil>y\<rceil> + \<lfloor>a\<rfloor>)"
    unfolding e f0 using c f1 f2 c0 by linarith
  then show "(a * 2, a) \<in> measure (\<lambda>a. nat (2 * \<lceil>1 / a\<rceil> + \<lfloor>a\<rfloor>))"
    by (simp only: in_measure y_def)
qed

declare ilog2.simps [simp del]

text \<open>Rounding a non-negative real to an integer, ties to the even one.\<close>

definition round_half_even :: "real \<Rightarrow> int" where
  "round_half_even q =
     (let f = \<lfloor>q\<rfloor>; r = q - of_int f
      in if r < 1 / 2 then f else if 1 / 2 < r then f + 1 else if even f then f else f + 1)"

text \<open>
  The double nearest to a real, as every arithmetic operation on doubles rounds its exact
  result: 53 significant bits, the smallest spacing \<open>2^-1074\<close>, ties to even, and an
  infinity when the rounded value reaches \<open>2^1024\<close>.
\<close>

definition round_double :: "real \<Rightarrow> pyfloat" where
  "round_double x =
     (if x = 0 then Fin 0
      else
        let a = \<bar>x\<bar>;
            q = max (ilog2 a - 52) (- 1074);
            y = of_int (round_half_even (a / 2 powi q)) * 2 powi q
        in if 2 ^ 1024 \<le> y then (if 0 < x then PosInf else NegInf)
           else Fin (if 0 < x then y else - y))"

text \<open>The product \<open>a * b\<close> of two floats.\<close>

fun fmul :: "pyfloat \<Rightarrow> pyfloat \<Rightarrow> pyfloat" where
  "fmul (Fin a) (Fin b) = round_double (a * b)"
| "fmul NaN b = NaN"
| "fmul a NaN = NaN"
| "fmul (Fin a) PosInf = (if a = 0 then NaN else if 0 < a then PosInf else NegInf)"
| "fmul (Fin a) NegInf = (if a = 0 then NaN else if 0 < a then NegInf else PosInf)"
| "fmul PosInf (Fin b) = (if b = 0 then NaN else if 0 < b then PosInf else NegInf)"
| "fmul NegInf (Fin b) = (if b = 0 then NaN else if 0 < b then NegInf else PosInf)"
| "fmul PosInf PosInf = PosInf"
| "fmul PosInf NegInf = NegInf"
| "fmul NegInf PosInf = NegInf"
| "fmul NegInf NegInf = PosInf"

text \<open>
  The comparisons \<open>a < b\<close> and \<open>a <= b\<close>: exact on the values, and false as soon as one side
  is NaN. \<open>a > b\<close> is \<open>b < a\<close> and \<open>a >= b\<close> is \<open>b <= a\<close>.
\<close>

fun flt :: "pyfloat \<Rightarrow> pyfloat \<Rightarrow> bool" where
  "flt (Fin a) (Fin b) = (a < b)"
| "flt (Fin a) PosInf = True"
| "flt NegInf (Fin b) = True"
| "flt NegInf PosInf = True"
| "flt a b = False"

definition fle :: "pyfloat \<Rightarrow> pyfloat \<Rightarrow> bool" where
  "fle a b = (flt a b \<or> (a = b \<and> a \<noteq> NaN))"

text \<open>
  A number is an \<open>int\<close> or a \<open>float\<close>. Python compares an \<open>int\<close> with a \<open>float\<close> exactly, on
  the values, without converting the \<open>int\<close>: \<open>num_val\<close> is the value compared.
\<close>

datatype pynum = NInt int | NFloat pyfloat

fun num_val :: "pynum \<Rightarrow> pyfloat" where
  "num_val (NInt i) = Fin (of_int i)"
| "num_val (NFloat f) = f"

definition num_lt :: "pynum \<Rightarrow> pynum \<Rightarrow> bool" where
  "num_lt a b = flt (num_val a) (num_val b)"

definition num_le :: "pynum \<Rightarrow> pynum \<Rightarrow> bool" where
  "num_le a b = fle (num_val a) (num_val b)"

text \<open>
  \<open>float(i)\<close> on an \<open>int\<close> rounds to the nearest double and raises \<open>OverflowError\<close> when
  that is out of range; \<open>int(f)\<close> on a float truncates towards zero and raises on NaN and
  on an infinity.
\<close>

definition float_of_int :: "int \<Rightarrow> exn + pyfloat" where
  "float_of_int i =
     (case round_double (of_int i) of Fin r \<Rightarrow> Inr (Fin r) | _ \<Rightarrow> Inl OverflowError)"

definition trunc :: "real \<Rightarrow> int" where
  "trunc x = (if x < 0 then \<lceil>x\<rceil> else \<lfloor>x\<rfloor>)"

fun int_of_float :: "pyfloat \<Rightarrow> exn + int" where
  "int_of_float (Fin r) = Inr (trunc r)"
| "int_of_float NaN = Inl ValueError"
| "int_of_float PosInf = Inl OverflowError"
| "int_of_float NegInf = Inl OverflowError"

text \<open>
  \<open>t * f\<close> for a number \<open>t\<close> and a float \<open>f\<close>: an \<open>int\<close> is converted to a float first.
\<close>

fun num_times_float :: "pynum \<Rightarrow> pyfloat \<Rightarrow> exn + pyfloat" where
  "num_times_float (NFloat a) f = Inr (fmul a f)"
| "num_times_float (NInt i) f =
     (case float_of_int i of Inl e \<Rightarrow> Inl e | Inr a \<Rightarrow> Inr (fmul a f))"

section \<open>Python values and library functions\<close>

text \<open>
  The values that travel through the program: what \<open>json.loads\<close> and \<open>eval\<close> return, what
  a metadata dictionary holds, and what a caller may pass as \<open>fps\<close>. A dictionary with
  string keys is an association list read with \<open>map_of\<close>.
\<close>

datatype pyval =
    PNone
  | PBool bool
  | PInt int
  | PFloat pyfloat
  | PStr string
  | PList "pyval list"
  | PDict "(string \<times> pyval) list"

text \<open>
  Library functions whose results the program only passes on are parameters of the
  model: the parsers behind \<open>float(str)\<close> and \<open>int(str)\<close> (\<open>None\<close> is Python's
  \<open>ValueError\<close>; \<open>float\<close> accepts the spellings of NaN and of the infinities), \<open>json.loads\<close>, \<open>eval\<close>, and \<open>str\<close> of the values whose printed form is
  not fixed here (floats, lists, dictionaries).
\<close>

record pylib =
  str_to_float :: "string \<Rightarrow> pyfloat option"
  str_to_int :: "string \<Rightarrow> int option"
  json_loads :: "string \<Rightarrow> exn + pyval"
  py_eval :: "string \<Rightarrow> exn + pyval"
  str_other :: "pyval \<Rightarrow> string"

text \<open>\<open>float(v)\<close> and \<open>int(v)\<close> on a value.\<close>

fun py_float :: "pylib \<Rightarrow> pyval \<Rightarrow> exn + pyfloat" where
  "py_float lib (PFloat f) = Inr f"
| "py_float lib (PInt i) = float_of_int i"
| "py_float lib (PBool b) = Inr (Fin (if b then 1 else 0))"
| "py_float lib (PStr s) = (case str_to_float lib s of None \<Rightarrow> Inl ValueError | Some f \<Rightarrow> Inr f)"
| "py_float lib PNone = Inl TypeError"
| "py_float lib (PList xs) = Inl TypeError"
| "py_float lib (PDict kvs) = Inl TypeError"

fun py_int :: "pylib \<Rightarrow> pyval \<Rightarrow> exn + int" where
  "py_int lib (PInt i) = Inr i"
| "py_int lib (PBool b) = Inr (if b then 1 else 0)"
| "py_int lib (PFloat f) = int_of_float f"
| "py_int lib (PStr s) = (case str_to_int lib s of None \<Rightarrow> Inl ValueError | Some i \<Rightarrow> Inr i)"
| "py_int lib PNone = Inl TypeError"
| "py_int lib (PList xs) = Inl TypeError"
| "py_int lib (PDict kvs) = Inl TypeError"

text \<open>Decimal printing of an integer, as \<open>str(i)\<close> and an f-string do.\<close>

definition digit_char :: "nat \<Rightarrow> char" where
  "digit_char d = char_of (48 + d)"

function str_nat :: "nat \<Rightarrow> string" where
  "str_nat n = (if n < 10 then [digit_char n] else str_nat (n div 10) @ [digit_char (n mod 10)])"
  by pat_completeness auto
termination
  by (relation "measure id") auto

declare str_nat.simps [simp del]

definition str_int :: "int \<Rightarrow> string" where
  "str_int i = (if i < 0 then CHR ''-'' # str_nat (nat (- i)) else str_nat (nat i))"

text \<open>\<open>sep.join(xs)\<close>.\<close>

fun join :: "string \<Rightarrow> string list \<Rightarrow> string" where
  "join sep [] = []"
| "join sep [x] = x"
| "join sep (x # y # ys) = x @ sep @ join sep (y # ys)"

text \<open>\<open>s.split(c)\<close> for a one-character separator: used to read a joined string back.\<close>

fun split_on :: "char \<Rightarrow> string \<Rightarrow> string list" where
  "split_on c [] = [[]]"
| "split_on c (x # xs) =
     (if x = c then [] # split_on c xs
      else (case split_on c xs of [] \<Rightarrow> [[x]] | w # ws \<Rightarrow> (x # w) # ws))"

text \<open>Reading a decimal integer, the inverse of printing one.\<close>

definition digit_value :: "char \<Rightarrow> nat option" where
  "digit_value c =
     (let n = (of_char c :: nat) in if 48 \<le> n \<and> n \<le> 57 then Some (n - 48) else None)"

fun read_digits :: "nat \<Rightarrow> string \<Rightarrow> nat option" where
  "read_digits acc [] = Some acc"
| "read_digits acc (c # cs) =
     (case digit_value c of None \<Rightarrow> None | Some d \<Rightarrow> read_digits (10 * acc + d) cs)"

definition read_int :: "string \<Rightarrow> int option" where
  "read_int s =
     (case s of
        [] \<Rightarrow> None
      | c # cs \<Rightarrow>
          if c = CHR ''-''
          then (if cs = [] then None else map_option (\<lambda>n. - int n) (read_digits 0 cs))
          else map_option int (read_digits 0 s))"

section \<open>Sampling without replacement\<close>

text \<open>
  \<open>random.sample(population, k)\<close> of the standard library. The random source is a
  parameter: \<open>rnd i\<close> is the \<open>i\<close>-th number drawn, reduced below the bound as \<open>randbelow\<close>
  does. The selection follows the library's pool algorithm: draw a position of the pool,
  take the element there, move the pool's last element into the gap. A count that is
  negative or larger than the population is a \<open>ValueError\<close>.

  The library runs this algorithm on populations of up to 21 elements (more for a count
  above 5); on larger ones it draws positions of the population and draws again when a
  position was already taken. Either way the result is \<open>k\<close> elements at \<open>k\<close> different
  positions in the order drawn, and every such list is the pool algorithm's result for
  some random source. A statement proved here for every random source therefore holds
  for every result of the library; a value computed here for one random source is the
  library's on populations of up to 21 elements.
\<close>

fun sample_pool :: "(nat \<Rightarrow> nat) \<Rightarrow> nat \<Rightarrow> 'a list \<Rightarrow> nat \<Rightarrow> 'a list" where
  "sample_pool rnd i pool 0 = []"
| "sample_pool rnd i pool (Suc k) =
     (let j = rnd i mod length pool
      in pool ! j # sample_pool rnd (Suc i) (butlast (pool[j := last pool])) k)"

definition random_sample :: "(nat \<Rightarrow> nat) \<Rightarrow> 'a list \<Rightarrow> int \<Rightarrow> exn + 'a list" where
  "random_sample rnd population k =
     (if 0 \<le> k \<and> k \<le> int (length population)
      then Inr (sample_pool rnd 0 population (nat k))
      else Inl ValueError)"

section \<open>The fixed-count random strategy: frame selection\<close>

text \<open>Sequencing of steps that may raise.\<close>

definition and_then :: "exn + 'a \<Rightarrow> ('a \<Rightarrow> exn + 'b) \<Rightarrow> exn + 'b" where
  "and_then m f = (case m of Inl e \<Rightarrow> Inl e | Inr x \<Rightarrow> f x)"

text \<open>The expression \<open>int(t * avg_fps)\<close>: the index of the frame at time \<open>t\<close>.\<close>

definition frame_at :: "pynum \<Rightarrow> pyfloat \<Rightarrow> exn + int" where
  "frame_at t avg_fps = and_then (num_times_float t avg_fps) int_of_float"

text \<open>
  \<open>FixedRandomFramesStrategy._select_random_frames\<close>, called with the validated times.
  \<open>range(start_frame, end_frame)\<close> is \<open>[start_frame..end_frame - 1]\<close>. Logging is not
  modelled.
\<close>

definition select_random_frames ::
  "(nat \<Rightarrow> nat) \<Rightarrow> int \<Rightarrow> pyfloat \<Rightarrow> pynum \<Rightarrow> pynum \<Rightarrow> exn + int list" where
  "select_random_frames rnd fps avg_fps start_time end_time =
     and_then (frame_at start_time avg_fps) (\<lambda>start_frame.
     and_then (frame_at end_time avg_fps) (\<lambda>end_frame.
     let frame_range = end_frame - start_frame
     in if frame_range \<le> 0 then Inr []
        else let num_frames_to_extract = min fps frame_range
             in case random_sample rnd [start_frame..end_frame - 1] num_frames_to_extract of
                  Inl e \<Rightarrow> Inl e
                | Inr samples \<Rightarrow> Inr (sort samples)))"

text \<open>
  \<open>FixedRandomFramesStrategy._build_select_filter\<close>: one term \<open>eq(n\,idx)\<close> for each
  index, joined by \<open>+\<close>. The fifth character of a term is a backslash.
\<close>

definition eq_term :: "int \<Rightarrow> string" where
  "eq_term idx = ''eq(n'' @ [CHR 0x5C] @ '','' @ str_int idx @ '')''"

definition build_select_filter :: "int list \<Rightarrow> string" where
  "build_select_filter frame_indices = join ''+'' (map eq_term frame_indices)"

text \<open>
  Reading a select expression back: the indices of its terms, in order. Only used to
  state that the expression built determines the indices.
\<close>

definition read_eq_term :: "string \<Rightarrow> int option" where
  "read_eq_term s =
     (if 7 \<le> length s \<and> take 6 s = ''eq(n'' @ [CHR 0x5C] @ '','' \<and> last s = CHR '')''
      then read_int (butlast (drop 6 s)) else None)"

definition read_select_filter :: "string \<Rightarrow> int list option" where
  "read_select_filter s =
     (if s = [] then Some [] else those (map read_eq_term (split_on CHR ''+'' s)))"

section \<open>Shared validation routines\<close>

text \<open>
  A metadata dictionary is a map from keys to values; the argument of the validators is
  \<open>None\<close> or such a dictionary. A time is \<open>None\<close> or a number, an \<open>int\<close> or a \<open>float\<close>.
\<close>

type_synonym metadata = "string \<rightharpoonup> pyval"

text \<open>\<open>isinstance(v, int)\<close>: Python's \<open>bool\<close> is a subclass of \<open>int\<close>.\<close>

fun isinstance_int :: "pyval \<Rightarrow> bool" where
  "isinstance_int (PInt i) = True"
| "isinstance_int (PBool b) = True"
| "isinstance_int v = False"

text \<open>The number an instance of \<open>int\<close> stands for (\<open>True\<close> is 1, \<open>False\<close> is 0).\<close>

fun int_value :: "pyval \<Rightarrow> int" where
  "int_value (PInt i) = i"
| "int_value (PBool b) = (if b then 1 else 0)"
| "int_value v = 0"

text \<open>\<open>FrameExtractionStrategy._validate_fps\<close>.\<close>

definition validate_fps :: "pyval \<Rightarrow> exn + pyval" where
  "validate_fps fps =
     (if fps = PNone then Inl ValueError
      else if \<not> isinstance_int fps \<or> int_value fps \<le> 0 then Inl ValueError
      else Inr fps)"

text \<open>
  \<open>FrameExtractionStrategy._validate_avg_fps\<close>. The handler around the conversion turns
  a \<open>TypeError\<close> or a \<open>ValueError\<close> into a \<open>ValueError\<close>; any other exception passes.
\<close>

definition validate_avg_fps :: "pylib \<Rightarrow> metadata option \<Rightarrow> exn + pyfloat" where
  "validate_avg_fps lib metadata =
     (case metadata of
        None \<Rightarrow> Inl ValueError
      | Some md \<Rightarrow>
          (case md ''avg_fps'' of
             None \<Rightarrow> Inl ValueError
           | Some v \<Rightarrow>
               (case py_float lib v of
                  Inl e \<Rightarrow> (if e = TypeError \<or> e = ValueError then Inl ValueError else Inl e)
                | Inr avg_fps \<Rightarrow>
                    (if fle avg_fps (Fin 0) then Inl ValueError else Inr avg_fps))))"

text \<open>
  \<open>FrameExtractionStrategy._validate_time_range\<close>. The conversion of the duration is not
  guarded: what \<open>float\<close> raises passes to the caller.
\<close>

definition validate_time_range ::
  "pylib \<Rightarrow> metadata option \<Rightarrow> pynum option \<Rightarrow> pynum option \<Rightarrow> exn + pynum \<times> pynum" where
  "validate_time_range lib metadata start_time end_time =
     (case metadata of
        None \<Rightarrow> Inl ValueError
      | Some md \<Rightarrow>
          (case md ''duration'' of
             None \<Rightarrow> Inl ValueError
           | Some v \<Rightarrow>
               (case py_float lib v of
                  Inl e \<Rightarrow> Inl e
                | Inr duration \<Rightarrow>
                    if fle duration (Fin 0) then Inl ValueError
                    else
                      let actual_start_time =
                            (case start_time of None \<Rightarrow> NInt 0 | Some s \<Rightarrow> s);
                          actual_end_time =
                            (case end_time of None \<Rightarrow> NFloat duration | Some e \<Rightarrow> e)
                      in if num_lt actual_start_time (NInt 0)
                            \<or> num_le (NFloat duration) actual_start_time
                         then Inl ValueError
                         else if num_le actual_end_time actual_start_time
                                 \<or> num_lt (NFloat duration) actual_end_time
                         then Inl ValueError
                         else Inr (actual_start_time, actual_end_time))))"

section \<open>The outside world and the extraction command\<close>

text \<open>
  An argument of an external command is a literal string or \<open>str(x)\<close> of a number, kept
  symbolic. What the program does to the outside world is recorded as a list of events,
  in the order they happen.
\<close>

datatype arg = Lit string | NumStr pynum

type_synonym command = "arg list"

datatype event = Mkdir string | Probe command | Ffmpeg command

text \<open>
  The outside world: the file system as the program queries it, the two external tools
  (the result of \<open>subprocess.check_output(...).decode()\<close> for the probe, and the exception
  \<open>subprocess.run\<close> raises for the extraction command, if any), and the random source.
\<close>

record env =
  path_exists :: "string \<Rightarrow> bool"
  path_is_dir :: "string \<Rightarrow> bool"
  mkdir_fails :: "string \<Rightarrow> bool"
  run_probe :: "command \<Rightarrow> exn + string"
  run_ffmpeg :: "command \<Rightarrow> exn option"
  random_source :: "nat \<Rightarrow> nat"

text \<open>\<open>os.path.join(a, b)\<close> for two components, on POSIX.\<close>

definition os_path_join :: "string \<Rightarrow> string \<Rightarrow> string" where
  "os_path_join a b =
     (if b \<noteq> [] \<and> hd b = CHR ''/'' then b
      else if a = [] \<or> last a = CHR ''/'' then a @ b
      else a @ ''/'' @ b)"

text \<open>\<open>str(v)\<close> of a value, as an f-string prints it.\<close>

fun py_str :: "pylib \<Rightarrow> pyval \<Rightarrow> string" where
  "py_str lib (PStr s) = s"
| "py_str lib (PInt i) = str_int i"
| "py_str lib (PBool b) = (if b then ''True'' else ''False'')"
| "py_str lib PNone = ''None''"
| "py_str lib v = str_other lib v"

text \<open>\<open>FrameExtractionStrategy._run_ffmpeg\<close> and \<open>common_frame_extraction_logic\<close>.\<close>

definition run_ffmpeg_command :: "env \<Rightarrow> command \<Rightarrow> (exn + unit) \<times> event list" where
  "run_ffmpeg_command w command =
     ((case run_ffmpeg w command of None \<Rightarrow> Inr () | Some e \<Rightarrow> Inl e), [Ffmpeg command])"

definition ffmpeg_command ::
  "string \<Rightarrow> command \<Rightarrow> string \<Rightarrow> pynum \<Rightarrow> pynum \<Rightarrow> bool \<Rightarrow> command" where
  "ffmpeg_command video_path filter_args output_dir start_time end_time reset_indices =
     [Lit ''ffmpeg'', Lit ''-i'', Lit video_path, Lit ''-ss'', NumStr start_time,
      Lit ''-to'', NumStr end_time] @ filter_args
     @ (if \<not> reset_indices then [Lit ''-frame_pts'', Lit ''true''] else [])
     @ [Lit (os_path_join output_dir ''frame_%06d.png'')]"

definition common_frame_extraction_logic ::
  "env \<Rightarrow> string \<Rightarrow> command \<Rightarrow> string \<Rightarrow> pynum \<Rightarrow> pynum \<Rightarrow> bool
     \<Rightarrow> (exn + unit) \<times> event list" where
  "common_frame_extraction_logic w video_path filter_args output_dir start_time end_time reset_indices =
     run_ffmpeg_command w
       (ffmpeg_command video_path filter_args output_dir start_time end_time reset_indices)"

section \<open>The three strategies\<close>

datatype strategy = AllFramesStrategy | UniformFramesStrategy | FixedRandomFramesStrategy

fun STRATEGY_NAME :: "strategy \<Rightarrow> string" where
  "STRATEGY_NAME AllFramesStrategy = ''all''"
| "STRATEGY_NAME UniformFramesStrategy = ''uniform''"
| "STRATEGY_NAME FixedRandomFramesStrategy = ''fixed_random''"

text \<open>\<open>AllFramesStrategy.extract_frames\<close>.\<close>

definition all_extract_frames ::
  "env \<Rightarrow> pylib \<Rightarrow> string \<Rightarrow> string \<Rightarrow> pyval \<Rightarrow> pynum option \<Rightarrow> pynum option \<Rightarrow> metadata option
     \<Rightarrow> bool \<Rightarrow> (exn + unit) \<times> event list" where
  "all_extract_frames w lib video_path output_dir fps start_time end_time metadata reset_indices =
     (case validate_time_range lib metadata start_time end_time of
        Inl e \<Rightarrow> (Inl e, [])
      | Inr (actual_start_time, actual_end_time) \<Rightarrow>
          common_frame_extraction_logic w video_path [Lit ''-fps_mode'', Lit ''passthrough'']
            output_dir actual_start_time actual_end_time reset_indices)"

text \<open>
  \<open>UniformFramesStrategy.extract_frames\<close>. The test \<open>fps > avg_fps\<close> compares the \<open>int\<close> with
  the float exactly: it is \<open>avg_fps < fps\<close> on the values.
\<close>

definition uniform_extract_frames ::
  "env \<Rightarrow> pylib \<Rightarrow> string \<Rightarrow> string \<Rightarrow> pyval \<Rightarrow> pynum option \<Rightarrow> pynum option \<Rightarrow> metadata option
     \<Rightarrow> bool \<Rightarrow> (exn + unit) \<times> event list" where
  "uniform_extract_frames w lib video_path output_dir fps0 start_time end_time metadata reset_indices =
     (case validate_fps fps0 of
        Inl e \<Rightarrow> (Inl e, [])
      | Inr fps \<Rightarrow>
          (case validate_avg_fps lib metadata of
             Inl e \<Rightarrow> (Inl e, [])
           | Inr avg_fps \<Rightarrow>
               if flt avg_fps (Fin (of_int (int_value fps))) then (Inl ValueError, [])
               else
                 (case validate_time_range lib metadata start_time end_time of
                    Inl e \<Rightarrow> (Inl e, [])
                  | Inr (actual_start_time, actual_end_time) \<Rightarrow>
                      common_frame_extraction_logic w video_path
                        [Lit ''-vf'', Lit (''fps='' @ py_str lib fps)]
                        output_dir actual_start_time actual_end_time reset_indices)))"

text \<open>
  \<open>FixedRandomFramesStrategy.extract_frames\<close>. The select expression stands between two
  apostrophes.
\<close>

definition fixed_random_extract_frames ::
  "env \<Rightarrow> pylib \<Rightarrow> string \<Rightarrow> string \<Rightarrow> pyval \<Rightarrow> pynum option \<Rightarrow> pynum option \<Rightarrow> metadata option
     \<Rightarrow> bool \<Rightarrow> (exn + unit) \<times> event list" where
  "fixed_random_extract_frames w lib video_path output_dir fps0 start_time end_time metadata reset_indices =
     (case validate_fps fps0 of
        Inl e \<Rightarrow> (Inl e, [])
      | Inr fps \<Rightarrow>
          (case validate_avg_fps lib metadata of
             Inl e \<Rightarrow> (Inl e, [])
           | Inr avg_fps \<Rightarrow>
               (case validate_time_range lib metadata start_time end_time of
                  Inl e \<Rightarrow> (Inl e, [])
                | Inr (actual_start_time, actual_end_time) \<Rightarrow>
                    (case select_random_frames (random_source w) (int_value fps) avg_fps
                            actual_start_time actual_end_time of
                       Inl e \<Rightarrow> (Inl e, [])
                     | Inr frame_indices \<Rightarrow>
                         let select_filter = build_select_filter frame_indices
                         in common_frame_extraction_logic w video_path
                              [Lit ''-vf'', Lit (''select='' @ [CHR 0x27] @ select_filter @ [CHR 0x27]),
                               Lit ''-vsync'', Lit ''vfr'']
                              output_dir actual_start_time actual_end_time reset_indices))))"

text \<open>The method call \<open>strategy.extract_frames(...)\<close>, dispatched on the class.\<close>

fun strategy_extract_frames ::
  "strategy \<Rightarrow> env \<Rightarrow> pylib \<Rightarrow> string \<Rightarrow> string \<Rightarrow> pyval \<Rightarrow> pynum option \<Rightarrow> pynum option
     \<Rightarrow> metadata option \<Rightarrow> bool \<Rightarrow> (exn + unit) \<times> event list" where
  "strategy_extract_frames AllFramesStrategy = all_extract_frames"
| "strategy_extract_frames UniformFramesStrategy = uniform_extract_frames"
| "strategy_extract_frames FixedRandomFramesStrategy = fixed_random_extract_frames"

section \<open>Strategy resolution\<close>

text \<open>
  \<open>str.lower\<close> on the bytes of a string: the letters A to Z become a to z, every other
  byte stays.
\<close>

definition lower_char :: "char \<Rightarrow> char" where
  "lower_char c =
     (let n = (of_char c :: nat) in if 65 \<le> n \<and> n \<le> 90 then char_of (n + 32) else c)"

definition lower :: "string \<Rightarrow> string" where
  "lower s = map lower_char s"

text \<open>\<open>FrameExtractionStrategy.__subclasses__()\<close>: the classes in the order they are defined.\<close>

definition subclasses :: "strategy list" where
  "subclasses = [AllFramesStrategy, UniformFramesStrategy, FixedRandomFramesStrategy]"

text \<open>\<open>get_strategy_class\<close>: the loop over the subclasses returns at the first match.\<close>

fun find_strategy :: "string \<Rightarrow> strategy list \<Rightarrow> exn + strategy" where
  "find_strategy name [] = Inl ValueError"
| "find_strategy name (cls # rest) =
     (if STRATEGY_NAME cls = name then Inr cls else find_strategy name rest)"

definition get_strategy_class :: "string \<Rightarrow> exn + strategy" where
  "get_strategy_class name = find_strategy (lower name) subclasses"

section \<open>The orchestrator\<close>

text \<open>
  \<open>Path.name\<close> and \<open>Path.suffix\<close> on the string of a path: the last component, and its
  part from the last dot on when that dot is neither its first nor its last character.
\<close>

definition path_name :: "string \<Rightarrow> string" where
  "path_name p = rev (takeWhile (\<lambda>c. c \<noteq> CHR ''/'') (rev p))"

definition path_suffix :: "string \<Rightarrow> string" where
  "path_suffix p =
     (let name = path_name p;
          ext = rev (takeWhile (\<lambda>c. c \<noteq> CHR ''.'') (rev name))
      in if length ext < length name \<and> ext \<noteq> [] \<and> length ext + 1 < length name
         then CHR ''.'' # ext else [])"

definition VALID_VIDEO_EXTENSIONS :: "string list" where
  "VALID_VIDEO_EXTENSIONS = [''.mp4'', ''.avi'', ''.mov'', ''.mkv'', ''.webm'']"

text \<open>\<open>validate_output_path\<close>.\<close>

definition validate_output_path :: "env \<Rightarrow> string \<Rightarrow> bool \<Rightarrow> (exn + string) \<times> event list" where
  "validate_output_path w output_dir create_if_missing =
     (if path_exists w output_dir
      then (if \<not> path_is_dir w output_dir then (Inl NotADirectoryError, [])
            else (Inr output_dir, []))
      else if create_if_missing
      then (if mkdir_fails w output_dir then (Inl OSError, [Mkdir output_dir])
            else (Inr output_dir, [Mkdir output_dir]))
      else (Inl FileNotFoundError, []))"

text \<open>The comparison \<open>v <= 0\<close>: a \<open>TypeError\<close> on a value that is not a number.\<close>

fun py_le_zero :: "pyval \<Rightarrow> exn + bool" where
  "py_le_zero (PInt i) = Inr (i \<le> 0)"
| "py_le_zero (PBool b) = Inr (\<not> b)"
| "py_le_zero (PFloat f) = Inr (fle f (Fin 0))"
| "py_le_zero v = Inl TypeError"

text \<open>
  The \<open>strategy\<close> argument of the constructor: \<open>None\<close>, a strategy instance, or some other
  object, of which only its truth value matters to \<open>strategy or AllFramesStrategy(...)\<close>.
\<close>

datatype strategy_arg = NoStrategy | AStrategy strategy | NotAStrategy bool

fun resolve_strategy :: "strategy_arg \<Rightarrow> exn + strategy" where
  "resolve_strategy NoStrategy = Inr AllFramesStrategy"
| "resolve_strategy (AStrategy s) = Inr s"
| "resolve_strategy (NotAStrategy truthy) = (if truthy then Inl TypeError else Inr AllFramesStrategy)"

text \<open>
  The fields of a \<open>VideoFrameExtractor\<close>. The attribute \<open>output_dir\<close> exists only when the
  constructor was given one.
\<close>

record extractor =
  ex_video_path :: string
  ex_output_dir :: "string option"
  ex_fps :: pyval
  ex_start_time :: "pynum option"
  ex_end_time :: "pynum option"
  ex_strategy :: strategy
  ex_reset_indices :: bool

text \<open>\<open>VideoFrameExtractor.__init__\<close>, check by check in the order of the source.\<close>

definition vfe_init ::
  "env \<Rightarrow> string \<Rightarrow> bool \<Rightarrow> string option \<Rightarrow> pyval \<Rightarrow> pynum option \<Rightarrow> pynum option \<Rightarrow> strategy_arg
     \<Rightarrow> bool \<Rightarrow> (exn + extractor) \<times> event list" where
  "vfe_init w video_path allow_any_extension output_dir fps start_time end_time strategy reset_indices =
     (if \<not> path_exists w video_path then (Inl FileNotFoundError, [])
      else if \<not> allow_any_extension \<and> lower (path_suffix video_path) \<notin> set VALID_VIDEO_EXTENSIONS
      then (Inl ValueError, [])
      else
        (case (case output_dir of
                 None \<Rightarrow> (Inr None, [])
               | Some d \<Rightarrow>
                   (case validate_output_path w d True of
                      (Inl e, t) \<Rightarrow> (Inl e, t)
                    | (Inr d', t) \<Rightarrow> (Inr (Some d'), t))) of
           (Inl e, t) \<Rightarrow> (Inl e, t)
         | (Inr self_output_dir, t) \<Rightarrow>
             (case (if fps \<noteq> PNone then py_le_zero fps else Inr False) of
                Inl e \<Rightarrow> (Inl e, t)
              | Inr True \<Rightarrow> (Inl ValueError, t)
              | Inr False \<Rightarrow>
                  if (case start_time of None \<Rightarrow> False | Some s \<Rightarrow> num_lt s (NInt 0))
                  then (Inl ValueError, t)
                  else if (case end_time of None \<Rightarrow> False | Some e \<Rightarrow> num_lt e (NInt 0))
                  then (Inl ValueError, t)
                  else if (case end_time of None \<Rightarrow> False
                           | Some e \<Rightarrow> (case start_time of None \<Rightarrow> False | Some s \<Rightarrow> num_le e s))
                  then (Inl ValueError, t)
                  else
                    (case resolve_strategy strategy of
                       Inl e \<Rightarrow> (Inl e, t)
                     | Inr self_strategy \<Rightarrow>
                         (Inr \<lparr>ex_video_path = video_path, ex_output_dir = self_output_dir,
                               ex_fps = fps, ex_start_time = start_time, ex_end_time = end_time,
                               ex_strategy = self_strategy, ex_reset_indices = reset_indices\<rparr>,
                          t)))))"

text \<open>\<open>d.get(key, default)\<close>: an \<open>AttributeError\<close> on a value that is not a dictionary.\<close>

fun dict_get :: "pyval \<Rightarrow> string \<Rightarrow> pyval \<Rightarrow> exn + pyval" where
  "dict_get (PDict kvs) key dflt = Inr (case map_of kvs key of None \<Rightarrow> dflt | Some v \<Rightarrow> v)"
| "dict_get v key dflt = Inl AttributeError"

text \<open>\<open>v[0]\<close>: on a list, a string, a dictionary with string keys, and anything else.\<close>

fun index0 :: "pyval \<Rightarrow> exn + pyval" where
  "index0 (PList []) = Inl IndexError"
| "index0 (PList (x # xs)) = Inr x"
| "index0 (PStr []) = Inl IndexError"
| "index0 (PStr (c # cs)) = Inr (PStr [c])"
| "index0 (PDict kvs) = Inl KeyError"
| "index0 v = Inl TypeError"

text \<open>\<open>eval(v)\<close>: the library evaluates a string; any other value here is a \<open>TypeError\<close>.\<close>

fun eval_value :: "pylib \<Rightarrow> pyval \<Rightarrow> exn + pyval" where
  "eval_value lib (PStr s) = py_eval lib s"
| "eval_value lib v = Inl TypeError"

definition probe_command :: "string \<Rightarrow> command" where
  "probe_command video_path =
     [Lit ''ffprobe'', Lit ''-v'', Lit ''error'', Lit ''-select_streams'', Lit ''v:0'',
      Lit ''-show_entries'',
      Lit ''stream=width,height,codec_name,r_frame_rate,avg_frame_rate,duration,nb_frames,bit_rate'',
      Lit ''-of'', Lit ''json'', Lit video_path]"

text \<open>
  The body of \<open>get_metadata\<close> after the probe has returned its output: parse it, take the
  first stream, convert the fields, build the dictionary.
\<close>

definition video_info_of :: "pylib \<Rightarrow> string \<Rightarrow> exn + metadata" where
  "video_info_of lib result =
     and_then (json_loads lib result) (\<lambda>metadata.
     and_then (dict_get metadata ''streams'' (PList [PDict []])) (\<lambda>streams.
     and_then (index0 streams) (\<lambda>stream.
     and_then (dict_get stream ''avg_frame_rate'' (PStr ''0/1'')) (\<lambda>avg_frame_rate.
     and_then (eval_value lib avg_frame_rate) (\<lambda>avg_fps.
     and_then (dict_get stream ''bit_rate'' (PInt 0)) (\<lambda>bit_rate.
     and_then (py_int lib bit_rate) (\<lambda>bit_rate_int.
     let bitrate_kbps = bit_rate_int div 1000 in
     and_then (dict_get stream ''codec_name'' (PStr ''Unknown'')) (\<lambda>codec.
     and_then (dict_get stream ''width'' (PStr ''Unknown'')) (\<lambda>width.
     and_then (dict_get stream ''height'' (PStr ''Unknown'')) (\<lambda>height.
     and_then (dict_get stream ''duration'' (PInt 0)) (\<lambda>duration_value.
     and_then (py_float lib duration_value) (\<lambda>duration.
     and_then (dict_get stream ''nb_frames'' (PStr ''0'')) (\<lambda>nb_frames.
     and_then (py_int lib nb_frames) (\<lambda>total_frames.
     Inr [''codec'' \<mapsto> codec,
          ''resolution'' \<mapsto> PStr (py_str lib width @ ''x'' @ py_str lib height),
          ''avg_fps'' \<mapsto> avg_fps,
          ''duration'' \<mapsto> PFloat duration,
          ''total_frames'' \<mapsto> PInt total_frames,
          ''bitrate'' \<mapsto> PInt bitrate_kbps]))))))))))))))"

text \<open>
  \<open>VideoFrameExtractor.get_metadata\<close>; its argument \<open>fields\<close> is \<open>field_names\<close> here.
  \<open>if fields:\<close> is false for \<open>None\<close> and for the empty
  list. Whatever the body raises, the handler returns \<open>None\<close>.
\<close>

definition get_metadata ::
  "env \<Rightarrow> pylib \<Rightarrow> string \<Rightarrow> string list option \<Rightarrow> (exn + metadata option) \<times> event list" where
  "get_metadata w lib video_path field_names =
     (let command = probe_command video_path;
          body = and_then (run_probe w command) (\<lambda>result.
                 and_then (video_info_of lib result) (\<lambda>video_info.
                 (case field_names of
                    None \<Rightarrow> Inr video_info
                  | Some fs \<Rightarrow> if fs \<noteq> [] then Inr (video_info |` set fs) else Inr video_info)))
      in ((case body of Inl e \<Rightarrow> Inr None | Inr d \<Rightarrow> Inr (Some d)), [Probe command]))"

text \<open>\<open>VideoFrameExtractor.extract_frames\<close>.\<close>

definition vfe_extract_frames :: "env \<Rightarrow> pylib \<Rightarrow> extractor \<Rightarrow> (exn + unit) \<times> event list" where
  "vfe_extract_frames w lib self =
     (case get_metadata w lib (ex_video_path self) (Some [''duration'', ''avg_fps'']) of
        (Inl e, t) \<Rightarrow> (Inl e, t)
      | (Inr None, t) \<Rightarrow> (Inl ValueError, t)
      | (Inr (Some metadata), t) \<Rightarrow>
          (case ex_output_dir self of
             None \<Rightarrow> (Inl AttributeError, t)
           | Some output_dir \<Rightarrow>
               (case strategy_extract_frames (ex_strategy self) w lib (ex_video_path self)
                       output_dir (ex_fps self) (ex_start_time self) (ex_end_time self)
                       (Some metadata) (ex_reset_indices self) of
                  (r, t') \<Rightarrow> (r, t @ t'))))"

text \<open>
  An extraction run, as the command line and the library entry point perform it:
  construct the extractor, then call its \<open>extract_frames\<close>.
\<close>

definition extraction_run ::
  "env \<Rightarrow> pylib \<Rightarrow> string \<Rightarrow> bool \<Rightarrow> string option \<Rightarrow> pyval \<Rightarrow> pynum option \<Rightarrow> pynum option
     \<Rightarrow> strategy_arg \<Rightarrow> bool \<Rightarrow> (exn + unit) \<times> event list" where
  "extraction_run w lib video_path allow_any_extension output_dir fps start_time end_time strategy
       reset_indices =
     (case vfe_init w video_path allow_any_extension output_dir fps start_time end_time strategy
             reset_indices of
        (Inl e, t) \<Rightarrow> (Inl e, t)
      | (Inr extractor, t) \<Rightarrow>
          (case vfe_extract_frames w lib extractor of (r, t') \<Rightarrow> (r, t @ t')))"

text \<open>The external commands among the events of a run.\<close>

fun is_command :: "event \<Rightarrow> bool" where
  "is_command (Mkdir d) = False"
| "is_command (Probe c) = True"
| "is_command (Ffmpeg c) = True"

section \<open>A sample world\<close>

text \<open>
  A concrete library and outside world, on which the model is evaluated below. They
  follow the fixture of the test suite: \<open>sample.mp4\<close> is a one-second video of 320 by 240
  pixels at 25 frames per second. \<open>audio.mp4\<close> is a file without a video stream, for which
  the probe reports an empty list of streams. The probe's output text is opaque to the
  program, which hands it to \<open>json.loads\<close>; it is named by a stand-in string here. Of the
  strings \<open>float\<close> parses, the library knows the duration the probe prints and \<open>nan\<close>.
\<close>

definition sample_stream :: pyval where
  "sample_stream =
     PDict [(''codec_name'', PStr ''h264''), (''width'', PInt 320), (''height'', PInt 240),
            (''avg_frame_rate'', PStr ''25/1''), (''duration'', PStr ''1.000000''),
            (''bit_rate'', PStr ''8000''), (''nb_frames'', PStr ''25'')]"

definition sample_lib :: pylib where
  "sample_lib =
     \<lparr>str_to_float = map_of [(''1.000000'', Fin 1), (''nan'', NaN)],
      str_to_int = map_of [(''0'', 0), (''25'', 25), (''8000'', 8000)],
      json_loads = (\<lambda>s. if s = ''probe output of sample.mp4''
                         then Inr (PDict [(''programs'', PList []), (''streams'', PList [sample_stream])])
                         else if s = ''probe output of audio.mp4''
                         then Inr (PDict [(''programs'', PList []), (''streams'', PList [])])
                         else Inl JSONDecodeError),
      py_eval = (\<lambda>s. if s = ''25/1'' then Inr (PFloat (Fin 25)) else Inl SyntaxError),
      str_other = (\<lambda>v. [])\<rparr>"

definition sample_world :: env where
  "sample_world =
     \<lparr>path_exists = (\<lambda>p. p = ''sample.mp4'' \<or> p = ''audio.mp4'' \<or> p = ''out''),
      path_is_dir = (\<lambda>p. p = ''out''),
      mkdir_fails = (\<lambda>p. False),
      run_probe = (\<lambda>c. if c = probe_command ''sample.mp4'' then Inr ''probe output of sample.mp4''
                        else if c = probe_command ''audio.mp4'' then Inr ''probe output of audio.mp4''
                        else Inl CalledProcessError),
      run_ffmpeg = (\<lambda>c. None),
      random_source = (\<lambda>i. 7)\<rparr>"

section \<open>Properties of the sampling model\<close>

text \<open>One step of the pool algorithm removes exactly the element it has drawn.\<close>

lemma pool_step_mset:
  assumes "j < length pool"
  shows "mset (butlast (pool[j := last pool])) = mset pool - {#pool ! j#}"
proof -
  from assms have ne: "pool \<noteq> []" by auto
  then have split: "mset pool = add_mset (last pool) (mset (butlast pool))"
    by (metis append_butlast_last_id mset.simps(2) mset_append union_mset_add_mset_right mset.simps(1) add.right_neutral)
  show ?thesis
  proof (cases "j = length pool - 1")
    case True
    then have "pool ! j = last pool" using ne by (simp add: last_conv_nth)
    then show ?thesis using True split by (simp add: butlast_list_update)
  next
    case False
    then have jb: "j < length (butlast pool)" using assms by simp
    then have nth: "butlast pool ! j = pool ! j" by (simp add: nth_butlast)
    then have mem: "pool ! j \<in># mset (butlast pool)" using jb by (metis nth_mem_mset)
    have "mset (butlast (pool[j := last pool])) = mset ((butlast pool)[j := last pool])"
      using False by (simp add: butlast_list_update)
    also have "\<dots> = add_mset (last pool) (mset (butlast pool) - {#pool ! j#})"
      using jb nth by (simp add: mset_update)
    also have "\<dots> = mset pool - {#pool ! j#}"
      using mem split by simp
    finally show ?thesis .
  qed
qed


lemma sample_pool_mset:
  "k \<le> length pool \<Longrightarrow> mset (sample_pool rnd i pool k) \<subseteq># mset pool"
proof (induction k arbitrary: i pool)
  case 0
  then show ?case by simp
next
  case (Suc k)
  define j where "j = rnd i mod length pool"
  from Suc.prems have "0 < length pool" by auto
  then have jlt: "j < length pool" by (simp add: j_def)
  define pool' where "pool' = butlast (pool[j := last pool])"
  have m: "mset pool' = mset pool - {#pool ! j#}"
    unfolding pool'_def using jlt by (rule pool_step_mset)
  have "k \<le> length pool'" using Suc.prems by (simp add: pool'_def)
  then have "mset (sample_pool rnd (Suc i) pool' k) \<subseteq># mset pool - {#pool ! j#}"
    using Suc.IH m by metis
  moreover have "pool ! j \<in># mset pool" using jlt by simp
  ultimately have "add_mset (pool ! j) (mset (sample_pool rnd (Suc i) pool' k)) \<subseteq># mset pool"
    by (metis insert_subset_eq_iff)
  then show ?case by (simp add: Let_def j_def pool'_def)
qed

lemma sample_pool_distinct:
  assumes "k \<le> length pool" "distinct pool"
  shows "distinct (sample_pool rnd i pool k) \<and> set (sample_pool rnd i pool k) \<subseteq> set pool"
proof -
  have sub: "mset (sample_pool rnd i pool k) \<subseteq># mset pool"
    using assms(1) by (rule sample_pool_mset)
  have "count (mset (sample_pool rnd i pool k)) a = (if a \<in> set (sample_pool rnd i pool k) then 1 else 0)" for a
  proof -
    define c where "c = count (mset (sample_pool rnd i pool k)) a"
    have le: "c \<le> count (mset pool) a"
      unfolding c_def using sub by (rule mset_subset_eq_count)
    have le1: "count (mset pool) a \<le> 1"
      using assms(2) by (simp add: distinct_count_atmost_1)
    show ?thesis
    proof (cases "a \<in> set (sample_pool rnd i pool k)")
      case True
      then have "0 < c" by (simp add: c_def)
      with le le1 have "c = 1" by linarith
      with True show ?thesis by (simp add: c_def)
    next
      case False
      then have "c = 0" by (simp add: c_def count_eq_zero_iff)
      with False show ?thesis by (simp add: c_def)
    qed
  qed
  then have "distinct (sample_pool rnd i pool k)" by (simp add: distinct_count_atmost_1)
  moreover have "set (sample_pool rnd i pool k) \<subseteq> set pool"
    using sub set_mset_mono by fastforce
  ultimately show ?thesis by simp
qed

section \<open>Properties of printing, joining and splitting\<close>

lemma digit_char_not_plus: "d < 10 \<Longrightarrow> digit_char d \<noteq> CHR ''+''"
proof
  assume d: "d < 10" and eq: "digit_char d = CHR ''+''"
  have "(of_char (digit_char d) :: nat) = (48 + d) mod 256"
    by (simp add: digit_char_def)
  with d have "(of_char (digit_char d) :: nat) = 48 + d" by simp
  with eq show False by simp
qed

lemma str_nat_no_plus: "CHR ''+'' \<notin> set (str_nat n)"
proof (induction n rule: str_nat.induct)
  case (1 n)
  show ?case
  proof (cases "n < 10")
    case True
    then show ?thesis using digit_char_not_plus[of n] by (subst str_nat.simps) auto
  next
    case False
    then have "n mod 10 < 10" by simp
    then show ?thesis using False 1 digit_char_not_plus[of "n mod 10"]
      by (subst str_nat.simps) auto
  qed
qed

lemma eq_term_no_plus: "CHR ''+'' \<notin> set (eq_term i)"
  by (simp add: eq_term_def str_int_def str_nat_no_plus)

lemma split_on_no_sep: "c \<notin> set x \<Longrightarrow> split_on c x = [x]"
  by (induction x) auto

lemma split_on_append: "c \<notin> set x \<Longrightarrow> split_on c (x @ c # r) = x # split_on c r"
  by (induction x) auto

lemma split_on_join:
  "ts \<noteq> [] \<Longrightarrow> \<forall>t\<in>set ts. c \<notin> set t \<Longrightarrow> split_on c (join [c] ts) = ts"
proof (induction "[c]" ts rule: join.induct)
  case 1
  then show ?case by simp
next
  case (2 x)
  then show ?case by (simp add: split_on_no_sep)
next
  case (3 x y ys)
  then show ?case by (simp add: split_on_append)
qed



lemma digit_value_digit_char: "d < 10 \<Longrightarrow> digit_value (digit_char d) = Some d"
proof -
  assume d: "d < 10"
  have "(of_char (digit_char d) :: nat) = (48 + d) mod 256"
    by (simp add: digit_char_def)
  with d have "(of_char (digit_char d) :: nat) = 48 + d" by simp
  with d show ?thesis by (simp add: digit_value_def Let_def)
qed

lemma read_digits_snoc:
  "read_digits acc (xs @ [c]) =
     (case read_digits acc xs of
        None \<Rightarrow> None
      | Some v \<Rightarrow> (case digit_value c of None \<Rightarrow> None | Some d \<Rightarrow> Some (10 * v + d)))"
  by (induction xs arbitrary: acc) (auto split: option.splits)

lemma read_digits_str_nat: "read_digits 0 (str_nat n) = Some n"
proof (induction n rule: str_nat.induct)
  case (1 n)
  show ?case
  proof (cases "n < 10")
    case True
    then show ?thesis by (subst str_nat.simps) (simp add: digit_value_digit_char)
  next
    case False
    then have ih: "read_digits 0 (str_nat (n div 10)) = Some (n div 10)" using 1 by simp
    have m: "n mod 10 < 10" by simp
    show ?thesis
      using False ih digit_value_digit_char [OF m]
      by (subst str_nat.simps) (simp add: read_digits_snoc)
  qed
qed

lemma str_nat_not_empty: "str_nat n \<noteq> []"
  by (subst str_nat.simps) simp

lemma digit_value_minus: "digit_value CHR ''-'' = None"
  by (simp add: digit_value_def)

lemma str_nat_hd_not_minus: "hd (str_nat n) \<noteq> CHR ''-''"
proof
  assume h: "hd (str_nat n) = CHR ''-''"
  obtain c cs where s: "str_nat n = c # cs" using str_nat_not_empty [of n] by (cases "str_nat n") auto
  with h have "c = CHR ''-''" by simp
  with s have "read_digits 0 (str_nat n) = None" by (simp add: digit_value_minus)
  then show False by (simp add: read_digits_str_nat)
qed

lemma read_int_str_int: "read_int (str_int i) = Some i"
proof (cases "i < 0")
  case True
  then show ?thesis
    by (simp add: read_int_def str_int_def str_nat_not_empty read_digits_str_nat)
next
  case False
  obtain c cs where s: "str_nat (nat i) = c # cs"
    using str_nat_not_empty [of "nat i"] by (cases "str_nat (nat i)") auto
  have "c \<noteq> CHR ''-''" using str_nat_hd_not_minus [of "nat i"] s by simp
  moreover have "read_digits 0 (c # cs) = Some (nat i)" using read_digits_str_nat [of "nat i"] s by simp
  ultimately show ?thesis using False s
    by (simp add: read_int_def str_int_def del: read_digits.simps)
qed

lemma str_int_not_empty: "str_int i \<noteq> []"
  by (simp add: str_int_def str_nat_not_empty)

lemma read_eq_term_eq_term: "read_eq_term (eq_term i) = Some i"
proof -
  have "butlast (str_int i @ '')'') = str_int i" by (simp add: butlast_append)
  moreover have "0 < length (str_int i)" using str_int_not_empty [of i] by simp
  ultimately show ?thesis
    by (simp add: read_eq_term_def eq_term_def read_int_str_int)
qed

lemma those_map_read_eq_term: "those (map read_eq_term (map eq_term xs)) = Some xs"
  by (induction xs) (simp_all add: read_eq_term_eq_term)

lemma eq_term_not_empty: "eq_term i \<noteq> []"
  by (simp add: eq_term_def)

lemma join_not_empty: "ts \<noteq> [] \<Longrightarrow> \<forall>t\<in>set ts. t \<noteq> [] \<Longrightarrow> join sep ts \<noteq> []"
  by (induction sep ts rule: join.induct) auto

lemma read_select_filter_build: "read_select_filter (build_select_filter xs) = Some xs"
proof (cases xs)
  case Nil
  then show ?thesis by (simp add: read_select_filter_def build_select_filter_def)
next
  case (Cons x xs')
  then have ne: "map eq_term xs \<noteq> []" by simp
  have "\<forall>t\<in>set (map eq_term xs). CHR ''+'' \<notin> set t" by (auto simp: eq_term_no_plus)
  with ne have sp: "split_on CHR ''+'' (join ''+'' (map eq_term xs)) = map eq_term xs"
    by (intro split_on_join)
  have "\<forall>t\<in>set (map eq_term xs). t \<noteq> []" by (auto simp: eq_term_not_empty)
  with ne have "join ''+'' (map eq_term xs) \<noteq> []" by (rule join_not_empty)
  then show ?thesis
    by (simp add: read_select_filter_def build_select_filter_def sp those_map_read_eq_term
        del: map_map)
qed

section \<open>Properties of rounding\<close>

text \<open>\<open>ilog2\<close> is the exponent: the only \<open>e\<close> with \<open>2^e <= a < 2^(e+1)\<close>.\<close>

lemma ilog2_bounds:
  assumes "0 < a"
  shows "2 powi (ilog2 a) \<le> a \<and> a < 2 powi (ilog2 a + 1)"
  using assms
proof (induction a rule: ilog2.induct)
  case (1 a)
  show ?case
  proof (cases "2 \<le> a")
    case True
    then have ih: "2 powi (ilog2 (a / 2)) \<le> a / 2 \<and> a / 2 < 2 powi (ilog2 (a / 2) + 1)"
      using 1 by simp
    have v: "ilog2 a = ilog2 (a / 2) + 1" using True 1(3) by (subst ilog2.simps) simp
    have p: "(2::real) powi (ilog2 (a / 2) + 1 + 1) = 2 powi (ilog2 (a / 2) + 1) * 2"
      by (simp add: power_int_add)
    have p': "(2::real) powi (ilog2 (a / 2) + 1) = 2 powi (ilog2 (a / 2)) * 2"
      by (simp add: power_int_add)
    from ih p p' show ?thesis unfolding v by (simp add: field_simps)
  next
    case False
    show ?thesis
    proof (cases "a < 1")
      case True
      then have ih: "2 powi (ilog2 (a * 2)) \<le> a * 2 \<and> a * 2 < 2 powi (ilog2 (a * 2) + 1)"
        using 1 False by simp
      have v: "ilog2 a = ilog2 (a * 2) - 1" using True False 1(3) by (subst ilog2.simps) simp
      have p: "(2::real) powi (ilog2 (a * 2) - 1) = 2 powi (ilog2 (a * 2)) / 2"
        by (simp add: power_int_diff)
      have p': "(2::real) powi (ilog2 (a * 2) + 1) = 2 powi (ilog2 (a * 2)) * 2"
        by (simp add: power_int_add)
      from ih p p' show ?thesis unfolding v by (simp add: field_simps)
    next
      case nl: False
      have v: "ilog2 a = 0" using False nl 1(3) by (subst ilog2.simps) simp
      from False nl show ?thesis unfolding v by simp
    qed
  qed
qed

lemma ilog2_eqI:
  assumes "0 < a" and "2 powi e \<le> a" and "a < 2 powi (e + 1)"
  shows "ilog2 a = e"
proof -
  from ilog2_bounds [OF assms(1)]
  have l: "2 powi (ilog2 a) \<le> a" and u: "a < 2 powi (ilog2 a + 1)" by simp_all
  have lt1: "(2::real) powi e < 2 powi (ilog2 a + 1)" using assms(2) u by linarith
  have 1: "e < ilog2 a + 1"
  proof (rule ccontr)
    assume "\<not> e < ilog2 a + 1"
    then have "ilog2 a + 1 \<le> e" by simp
    then have "(2::real) powi (ilog2 a + 1) \<le> 2 powi e" by (intro power_int_increasing) simp_all
    with lt1 show False by linarith
  qed
  have lt2: "(2::real) powi (ilog2 a) < 2 powi (e + 1)" using l assms(3) by linarith
  have 2: "ilog2 a < e + 1"
  proof (rule ccontr)
    assume "\<not> ilog2 a < e + 1"
    then have "e + 1 \<le> ilog2 a" by simp
    then have "(2::real) powi (e + 1) \<le> 2 powi (ilog2 a)" by (intro power_int_increasing) simp_all
    with lt2 show False by linarith
  qed
  from 1 2 show ?thesis by simp
qed


lemma round_double_3: "round_double (27021597764222975 / 9007199254740992) = Fin 3"
proof -
  have l: "ilog2 (27021597764222975 / 9007199254740992) = 1"
    by (rule ilog2_eqI) simp_all
  show ?thesis by (simp add: round_double_def Let_def l round_half_even_def)
qed

lemma frame_at_0: "frame_at (NInt 0) (Fin 25) = Inr 0"
  by (simp add: frame_at_def and_then_def float_of_int_def round_double_def trunc_def)


lemma frame_at_012: "frame_at (NFloat (Fin (1080863910568919 / 9007199254740992))) (Fin 25) = Inr 3"
  by (simp add: frame_at_def and_then_def round_double_3 trunc_def)

section \<open>Frame selection: the claims\<close>



text \<open>
  C2. Whenever \<open>_select_random_frames\<close> returns a non-empty list, \<open>int(start_time * avg_fps)\<close>
  and \<open>int(end_time * avg_fps)\<close> exist, and the indices are pairwise distinct, strictly
  ascending, and each lies in the half-open range from the first (inclusive) to the
  second (exclusive). The expression \<open>_build_select_filter\<close> builds from them is the terms
  \<open>eq(n\,idx)\<close>, with \<open>idx\<close> in decimal, joined by \<open>+\<close> in that order; read back term by term
  it gives exactly the indices.
\<close>

theorem select_random_frames_sorted_distinct_in_window:
  assumes "select_random_frames rnd fps avg_fps start_time end_time = Inr frames"
    and "frames \<noteq> []"
  shows "\<exists>start_frame end_frame.
     frame_at start_time avg_fps = Inr start_frame \<and>
     frame_at end_time avg_fps = Inr end_frame \<and>
     distinct frames \<and> sorted_wrt (<) frames \<and>
     (\<forall>i\<in>set frames. start_frame \<le> i \<and> i < end_frame) \<and>
     build_select_filter frames =
       join ''+'' (map (\<lambda>idx. ''eq(n'' @ [CHR 0x5C] @ '','' @ str_int idx @ '')'') frames) \<and>
     read_select_filter (build_select_filter frames) = Some frames"
proof -
  from assms(1) obtain s e where
    s: "frame_at start_time avg_fps = Inr s" and e: "frame_at end_time avg_fps = Inr e"
    by (auto simp: select_random_frames_def and_then_def split: sum.splits)
  have pos: "0 < e - s"
    using assms s e by (auto simp: select_random_frames_def and_then_def Let_def split: if_splits)
  define k where "k = min fps (e - s)"
  from pos assms(1) s e obtain samples where
    rs: "random_sample rnd [s..e - 1] k = Inr samples" and fr: "frames = sort samples"
    by (auto simp: select_random_frames_def and_then_def Let_def k_def split: sum.splits)
  from rs have kk: "nat k \<le> length [s..e - 1]"
    and sm: "samples = sample_pool rnd 0 [s..e - 1] (nat k)"
    by (auto simp: random_sample_def split: if_splits)
  have "distinct samples \<and> set samples \<subseteq> set [s..e - 1]"
    unfolding sm using kk by (intro sample_pool_distinct) simp_all
  then have a: "distinct frames \<and> sorted_wrt (<) frames \<and> (\<forall>i\<in>set frames. s \<le> i \<and> i < e)"
    unfolding fr by (auto simp: strict_sorted_iff)
  have b: "build_select_filter frames =
       join ''+'' (map (\<lambda>idx. ''eq(n'' @ [CHR 0x5C] @ '','' @ str_int idx @ '')'') frames)"
    by (simp add: build_select_filter_def eq_term_def [abs_def])
  have c: "read_select_filter (build_select_filter frames) = Some frames"
    by (rule read_select_filter_build)
  from s e a b c show ?thesis by blast
qed

theorem select_random_frames_sorted_distinct_in_window_witness:
  "select_random_frames (\<lambda>i. 2) 2 (Fin 25) (NInt 0)
      (NFloat (Fin (1080863910568919 / 9007199254740992))) = Inr [0, 2] \<and>
   frame_at (NInt 0) (Fin 25) = Inr 0 \<and>
   frame_at (NFloat (Fin (1080863910568919 / 9007199254740992))) (Fin 25) = Inr 3 \<and>
   distinct [0, 2 :: int] \<and> sorted_wrt (<) [0, 2 :: int] \<and>
   list_all (\<lambda>i. 0 \<le> i \<and> i < 3) [0, 2 :: int] \<and>
   build_select_filter [0, 2] = ''eq(n'' @ CHR 0x5C # '',0)+eq(n'' @ CHR 0x5C # '',2)'' \<and>
   read_select_filter (''eq(n'' @ CHR 0x5C # '',0)+eq(n'' @ CHR 0x5C # '',2)'') = Some [0, 2]"
proof -
  have s: "frame_at (NInt 0) (Fin 25) = Inr 0" by (rule frame_at_0)
  have e: "frame_at (NFloat (Fin (1080863910568919 / 9007199254740992))) (Fin 25) = Inr 3"
    by (rule frame_at_012)
  have p: "sort (sample_pool (\<lambda>i. 2) 0 [0..2] 2) = [0, 2 :: int]" by code_simp
  have h: "select_random_frames (\<lambda>i. 2) 2 (Fin 25) (NInt 0)
      (NFloat (Fin (1080863910568919 / 9007199254740992))) = Inr [0, 2]"
    by (simp add: select_random_frames_def and_then_def s e random_sample_def p)
  have ne: "[0, 2] \<noteq> ([] :: int list)" by simp
  have d0: "str_int 0 = ''0''" by code_simp
  have d2: "str_int 2 = ''2''" by code_simp
  from select_random_frames_sorted_distinct_in_window [OF h ne] s e
  have c: "distinct [0, 2 :: int] \<and> sorted_wrt (<) [0, 2 :: int] \<and>
     (\<forall>i\<in>set [0, 2 :: int]. 0 \<le> i \<and> i < 3) \<and>
     build_select_filter [0, 2] =
       join ''+'' (map (\<lambda>idx. ''eq(n'' @ [CHR 0x5C] @ '','' @ str_int idx @ '')'') [0, 2]) \<and>
     read_select_filter (build_select_filter [0, 2]) = Some [0, 2]"
    by auto
  from c have c1: "distinct [0, 2 :: int] \<and> sorted_wrt (<) [0, 2 :: int]" by blast
  from c have c2: "list_all (\<lambda>i. 0 \<le> i \<and> i < 3) [0, 2 :: int]" by (simp add: list_all_iff)
  from c have c3: "build_select_filter [0, 2] =
       join ''+'' (map (\<lambda>idx. ''eq(n'' @ [CHR 0x5C] @ '','' @ str_int idx @ '')'') [0, 2])"
    by blast
  then have c3': "build_select_filter [0, 2] = ''eq(n'' @ CHR 0x5C # '',0)+eq(n'' @ CHR 0x5C # '',2)''"
    by (simp add: d0 d2)
  from c have c4: "read_select_filter (build_select_filter [0, 2]) = Some [0, 2]" by blast
  then have c4': "read_select_filter (''eq(n'' @ CHR 0x5C # '',0)+eq(n'' @ CHR 0x5C # '',2)'') = Some [0, 2]"
    by (simp only: c3')
  from c1 have c1a: "distinct [0, 2 :: int]" by (rule conjunct1)
  from c1 have c1b: "sorted_wrt (<) [0, 2 :: int]" by (rule conjunct2)
  show ?thesis
    by (rule conjI [OF h conjI [OF s conjI [OF e conjI [OF c1a conjI [OF c1b
          conjI [OF c2 conjI [OF c3' c4']]]]]]])
qed

text \<open>
  On an empty frame range \<open>_select_random_frames\<close> returns the empty list, for which
  \<open>_build_select_filter\<close> gives the empty string.
\<close>

lemma select_random_frames_empty_range:
  "(frame_at start_time avg_fps = Inr start_frame \<and> frame_at end_time avg_fps = Inr end_frame \<and>
    end_frame - start_frame \<le> 0 \<longrightarrow>
      select_random_frames rnd fps avg_fps start_time end_time = Inr []) \<and>
   build_select_filter [] = []"
  by (simp add: select_random_frames_def and_then_def Let_def build_select_filter_def)

section \<open>Validation: the claims\<close>



lemma fle_imp_not_flt: "fle a b \<Longrightarrow> \<not> flt b a"
  by (cases a; cases b) (auto simp: fle_def)









section \<open>Strategy resolution: the claim\<close>

text \<open>
  C5. \<open>get_strategy_class\<close> lowers the name and resolves \<open>all\<close> to \<open>AllFramesStrategy\<close>,
  \<open>uniform\<close> to \<open>UniformFramesStrategy\<close> and \<open>fixed_random\<close> to
  \<open>FixedRandomFramesStrategy\<close>; every other name is a \<open>ValueError\<close>. Two names that are
  equal up to the case of their letters resolve alike.
\<close>

theorem get_strategy_class_resolution:
  "get_strategy_class name =
     (if lower name = ''all'' then Inr AllFramesStrategy
      else if lower name = ''uniform'' then Inr UniformFramesStrategy
      else if lower name = ''fixed_random'' then Inr FixedRandomFramesStrategy
      else Inl ValueError) \<and>
   (lower name = lower name' \<longrightarrow> get_strategy_class name = get_strategy_class name')"
  by (simp add: get_strategy_class_def subclasses_def)

theorem get_strategy_class_resolution_witness:
  "get_strategy_class ''AlL'' = Inr AllFramesStrategy \<and>
   get_strategy_class ''Uniform'' = Inr UniformFramesStrategy \<and>
   get_strategy_class ''FIXED_RANDOM'' = Inr FixedRandomFramesStrategy \<and>
   get_strategy_class ''invalid_strategy'' = Inl ValueError \<and>
   get_strategy_class ''ALL'' = get_strategy_class ''all''"
proof -
  note t = get_strategy_class_resolution
  have l1: "lower ''AlL'' = ''all''" by code_simp
  have l2: "lower ''Uniform'' = ''uniform''" by code_simp
  have l3: "lower ''FIXED_RANDOM'' = ''fixed_random''" by code_simp
  have l4: "lower ''invalid_strategy'' = ''invalid_strategy''" by code_simp
  have l5: "lower ''ALL'' = lower ''all''" by code_simp
  have 1: "get_strategy_class ''AlL'' = Inr AllFramesStrategy"
    using t [where name = "''AlL''" and name' = "''all''"] l1 by simp
  have 2: "get_strategy_class ''Uniform'' = Inr UniformFramesStrategy"
    using t [where name = "''Uniform''" and name' = "''all''"] l2 by simp
  have 3: "get_strategy_class ''FIXED_RANDOM'' = Inr FixedRandomFramesStrategy"
    using t [where name = "''FIXED_RANDOM''" and name' = "''all''"] l3 by simp
  have 4: "get_strategy_class ''invalid_strategy'' = Inl ValueError"
    using t [where name = "''invalid_strategy''" and name' = "''all''"] l4 by simp
  have 5: "get_strategy_class ''ALL'' = get_strategy_class ''all''"
    using t [where name = "''ALL''" and name' = "''all''"] l5 by blast
  from 1 2 3 4 5 show ?thesis by blast
qed

section \<open>The uniform strategy: the claim\<close>

text \<open>
  C8. Once \<open>fps\<close> and \<open>avg_fps\<close> have been validated, \<open>UniformFramesStrategy.extract_frames\<close>
  raises \<open>ValueError\<close> when \<open>fps > avg_fps\<close>, with no event and whatever the times and the
  duration are: the time range has not been looked at. Otherwise, and so in particular
  with \<open>fps <= avg_fps\<close>, the check is passed: the outcome is that of the time-range
  validation, followed by the extraction command.
\<close>

theorem uniform_rejects_fps_above_source:
  assumes "validate_fps fps0 = Inr fps"
    and "validate_avg_fps lib metadata = Inr avg_fps"
  shows "(flt avg_fps (Fin (of_int (int_value fps))) \<longrightarrow>
            uniform_extract_frames w lib video_path output_dir fps0 start_time end_time metadata
              reset_indices = (Inl ValueError, [])) \<and>
         (\<not> flt avg_fps (Fin (of_int (int_value fps))) \<longrightarrow>
            uniform_extract_frames w lib video_path output_dir fps0 start_time end_time metadata
              reset_indices =
            (case validate_time_range lib metadata start_time end_time of
               Inl e \<Rightarrow> (Inl e, [])
             | Inr (s, e) \<Rightarrow>
                 common_frame_extraction_logic w video_path
                   [Lit ''-vf'', Lit (''fps='' @ py_str lib fps)] output_dir s e reset_indices)) \<and>
         (fle (Fin (of_int (int_value fps))) avg_fps \<longrightarrow>
            uniform_extract_frames w lib video_path output_dir fps0 start_time end_time metadata
              reset_indices =
            (case validate_time_range lib metadata start_time end_time of
               Inl e \<Rightarrow> (Inl e, [])
             | Inr (s, e) \<Rightarrow>
                 common_frame_extraction_logic w video_path
                   [Lit ''-vf'', Lit (''fps='' @ py_str lib fps)] output_dir s e reset_indices))"
  using assms fle_imp_not_flt [of "Fin (of_int (int_value fps))" avg_fps]
  by (auto simp: uniform_extract_frames_def)

theorem uniform_rejects_fps_above_source_witness:
  "validate_fps (PInt 30) = Inr (PInt 30) \<and>
   validate_avg_fps sample_lib (Some [''avg_fps'' \<mapsto> PFloat (Fin 25), ''duration'' \<mapsto> PNone])
     = Inr (Fin 25) \<and>
   validate_time_range sample_lib (Some [''avg_fps'' \<mapsto> PFloat (Fin 25), ''duration'' \<mapsto> PNone])
     None None = Inl TypeError \<and>
   uniform_extract_frames sample_world sample_lib ''sample.mp4'' ''out'' (PInt 30) None None
     (Some [''avg_fps'' \<mapsto> PFloat (Fin 25), ''duration'' \<mapsto> PNone]) False = (Inl ValueError, []) \<and>
   validate_fps (PInt 25) = Inr (PInt 25) \<and>
   uniform_extract_frames sample_world sample_lib ''sample.mp4'' ''out'' (PInt 25) None None
     (Some [''avg_fps'' \<mapsto> PFloat (Fin 25), ''duration'' \<mapsto> PNone]) False = (Inl TypeError, [])"
proof -
  have f30: "validate_fps (PInt 30) = Inr (PInt 30)" by (simp add: validate_fps_def)
  have f25: "validate_fps (PInt 25) = Inr (PInt 25)" by (simp add: validate_fps_def)
  have avg: "validate_avg_fps sample_lib (Some [''avg_fps'' \<mapsto> PFloat (Fin 25), ''duration'' \<mapsto> PNone])
      = Inr (Fin 25)" by (simp add: validate_avg_fps_def fle_def)
  have tr: "validate_time_range sample_lib (Some [''avg_fps'' \<mapsto> PFloat (Fin 25), ''duration'' \<mapsto> PNone])
      None None = Inl TypeError" by (simp add: validate_time_range_def)
  have a: "uniform_extract_frames sample_world sample_lib ''sample.mp4'' ''out'' (PInt 30) None None
     (Some [''avg_fps'' \<mapsto> PFloat (Fin 25), ''duration'' \<mapsto> PNone]) False = (Inl ValueError, [])"
    using uniform_rejects_fps_above_source [OF f30 avg, of sample_world "''sample.mp4''" "''out''"
        None None False] by simp
  have b: "uniform_extract_frames sample_world sample_lib ''sample.mp4'' ''out'' (PInt 25) None None
     (Some [''avg_fps'' \<mapsto> PFloat (Fin 25), ''duration'' \<mapsto> PNone]) False = (Inl TypeError, [])"
    using uniform_rejects_fps_above_source [OF f25 avg, of sample_world "''sample.mp4''" "''out''"
        None None False] tr by simp
  show ?thesis by (rule conjI [OF f30 conjI [OF avg conjI [OF tr conjI [OF a conjI [OF f25 b]]]]])
qed

section \<open>The orchestrator: events of a run\<close>

text \<open>
  The constructor issues no external command; \<open>get_metadata\<close> issues the probe and nothing
  else, and returns; a strategy either raises before any event, or validates the time
  range and then issues the extraction command as its only event.
\<close>

lemma validate_output_path_no_command:
  "validate_output_path w d c = (r, t) \<Longrightarrow> filter is_command t = []"
  by (auto simp: validate_output_path_def split: if_splits)

lemma vfe_init_no_command:
  assumes "vfe_init w video_path allow_any_extension output_dir fps start_time end_time strategy
     reset_indices = (r, t)"
  shows "filter is_command t = []"
proof (cases output_dir)
  case None
  with assms show ?thesis
    by (auto simp: vfe_init_def split: if_splits sum.splits bool.splits)
next
  case (Some d)
  obtain r0 t0 where v: "validate_output_path w d True = (r0, t0)" by (cases "validate_output_path w d True")
  then have "filter is_command t0 = []" by (rule validate_output_path_no_command)
  moreover have "t = [] \<or> t = t0"
    using assms Some v
    by (auto simp: vfe_init_def split: if_splits sum.splits bool.splits)
  ultimately show ?thesis by auto
qed

lemma vfe_init_fields:
  assumes "vfe_init w video_path allow_any_extension output_dir fps start_time end_time strategy
     reset_indices = (Inr self, t)"
  shows "ex_video_path self = video_path \<and> ex_fps self = fps \<and> ex_start_time self = start_time \<and>
     ex_end_time self = end_time \<and> ex_reset_indices self = reset_indices \<and>
     ex_output_dir self = output_dir"
  using assms
  by (auto simp: vfe_init_def validate_output_path_def
      split: if_splits sum.splits bool.splits option.splits prod.splits)

lemma get_metadata_events:
  "snd (get_metadata w lib video_path field_names) = [Probe (probe_command video_path)]"
  by (simp add: get_metadata_def Let_def)

lemma get_metadata_returns:
  "\<exists>m. fst (get_metadata w lib video_path field_names) = Inr m"
  by (simp add: get_metadata_def Let_def split: sum.splits)

lemma strategy_extract_frames_events:
  assumes "strategy_extract_frames strategy w lib video_path output_dir fps start_time end_time
     metadata reset_indices = (r, t)"
  shows "(t = [] \<and> (\<exists>e. r = Inl e)) \<or>
     (\<exists>filter_args s e. validate_time_range lib metadata start_time end_time = Inr (s, e) \<and>
        t = [Ffmpeg (ffmpeg_command video_path filter_args output_dir s e reset_indices)])"
proof (cases strategy)
  case AllFramesStrategy
  with assms show ?thesis
    by (auto simp: all_extract_frames_def common_frame_extraction_logic_def run_ffmpeg_command_def
        split: sum.splits prod.splits)
next
  case UniformFramesStrategy
  with assms show ?thesis
    by (auto simp: uniform_extract_frames_def common_frame_extraction_logic_def
        run_ffmpeg_command_def split: sum.splits prod.splits if_splits)
next
  case FixedRandomFramesStrategy
  with assms show ?thesis
    by (auto simp: fixed_random_extract_frames_def common_frame_extraction_logic_def
        run_ffmpeg_command_def Let_def split: sum.splits prod.splits)
qed


lemma vfe_extract_frames_events:
  assumes "vfe_extract_frames w lib self = (r, t)"
  shows "(t = [Probe (probe_command (ex_video_path self))] \<and> (\<exists>e. r = Inl e)) \<or>
     (\<exists>metadata od filter_args s e.
        fst (get_metadata w lib (ex_video_path self) (Some [''duration'', ''avg_fps'']))
          = Inr (Some metadata) \<and>
        ex_output_dir self = Some od \<and>
        validate_time_range lib (Some metadata) (ex_start_time self) (ex_end_time self)
          = Inr (s, e) \<and>
        t = [Probe (probe_command (ex_video_path self)),
             Ffmpeg (ffmpeg_command (ex_video_path self) filter_args od s e (ex_reset_indices self))])"
proof -
  define g where "g = get_metadata w lib (ex_video_path self) (Some [''duration'', ''avg_fps''])"
  have ev: "snd g = [Probe (probe_command (ex_video_path self))]"
    unfolding g_def by (rule get_metadata_events)
  obtain m where m: "fst g = Inr m"
    unfolding g_def using get_metadata_returns by blast
  from ev m have g: "g = (Inr m, [Probe (probe_command (ex_video_path self))])"
    by (cases g) simp
  show ?thesis
  proof (cases m)
    case None
    with assms g show ?thesis
      by (auto simp: vfe_extract_frames_def g_def [symmetric])
  next
    case (Some metadata)
    show ?thesis
    proof (cases "ex_output_dir self")
      case None
      with assms g Some show ?thesis
        by (auto simp: vfe_extract_frames_def g_def [symmetric])
    next
      case (Some od)
      obtain r' t' where st: "strategy_extract_frames (ex_strategy self) w lib (ex_video_path self)
          od (ex_fps self) (ex_start_time self) (ex_end_time self) (Some metadata)
          (ex_reset_indices self) = (r', t')"
        by (cases "strategy_extract_frames (ex_strategy self) w lib (ex_video_path self)
          od (ex_fps self) (ex_start_time self) (ex_end_time self) (Some metadata)
          (ex_reset_indices self)")
      from assms g \<open>m = Some metadata\<close> Some st
      have rt: "r = r' \<and> t = [Probe (probe_command (ex_video_path self))] @ t'"
        by (simp add: vfe_extract_frames_def g_def [symmetric])
      from strategy_extract_frames_events [OF st] show ?thesis
      proof
        assume "t' = [] \<and> (\<exists>e. r' = Inl e)"
        with rt show ?thesis by simp
      next
        assume "\<exists>filter_args s e.
          validate_time_range lib (Some metadata) (ex_start_time self) (ex_end_time self) = Inr (s, e) \<and>
          t' = [Ffmpeg (ffmpeg_command (ex_video_path self) filter_args od s e (ex_reset_indices self))]"
        with rt m g Some \<open>m = Some metadata\<close> show ?thesis
          by (auto simp: g_def)
      qed
    qed
  qed
qed

text \<open>
  C4. In every extraction run (construction, then \<open>extract_frames\<close>) the external commands
  are none, the probe alone, or the probe followed by one extraction command. If the
  constructor's validation raises, no command is issued and the run raises. A command is
  issued only after the constructor has succeeded; the extraction command is issued only
  after the probe has given a metadata dictionary and the strategy has validated the time
  range and computed its filter arguments, and it is the last event of the run.
\<close>

theorem extraction_run_order:
  assumes "extraction_run w lib video_path allow_any_extension output_dir fps start_time end_time
     strategy reset_indices = (r, t)"
  shows "(filter is_command t = [] \<or>
          filter is_command t = [Probe (probe_command video_path)] \<or>
          (\<exists>c. filter is_command t = [Probe (probe_command video_path), Ffmpeg c])) \<and>
     ((\<exists>e t0. vfe_init w video_path allow_any_extension output_dir fps start_time end_time
                 strategy reset_indices = (Inl e, t0))
        \<longrightarrow> filter is_command t = [] \<and> (\<exists>e. r = Inl e)) \<and>
     (filter is_command t \<noteq> []
        \<longrightarrow> (\<exists>self t0. vfe_init w video_path allow_any_extension output_dir fps start_time
                 end_time strategy reset_indices = (Inr self, t0))) \<and>
     (\<forall>c. Ffmpeg c \<in> set t \<longrightarrow>
        (\<exists>self t0 metadata od filter_args s e.
           vfe_init w video_path allow_any_extension output_dir fps start_time end_time
             strategy reset_indices = (Inr self, t0) \<and>
           fst (get_metadata w lib video_path (Some [''duration'', ''avg_fps''])) = Inr (Some metadata) \<and>
           output_dir = Some od \<and>
           validate_time_range lib (Some metadata) start_time end_time = Inr (s, e) \<and>
           c = ffmpeg_command video_path filter_args od s e reset_indices \<and>
           t = t0 @ [Probe (probe_command video_path), Ffmpeg c]))"
proof -
  obtain r0 t0 where i: "vfe_init w video_path allow_any_extension output_dir fps start_time end_time
      strategy reset_indices = (r0, t0)"
    by (cases "vfe_init w video_path allow_any_extension output_dir fps start_time end_time
      strategy reset_indices")
  have t0: "filter is_command t0 = []" using i by (rule vfe_init_no_command)
  then have nof: "\<And>c. Ffmpeg c \<notin> set t0"
    by (auto simp: filter_empty_conv)
  show ?thesis
  proof (cases r0)
    case (Inl e)
    with assms i have "r = Inl e \<and> t = t0" by (simp add: extraction_run_def)
    with t0 nof i Inl show ?thesis by auto
  next
    case (Inr self)
    obtain r' t' where x: "vfe_extract_frames w lib self = (r', t')"
      by (cases "vfe_extract_frames w lib self")
    from assms i Inr x have rt: "r = r' \<and> t = t0 @ t'" by (simp add: extraction_run_def)
    from i Inr have f: "ex_video_path self = video_path \<and> ex_fps self = fps \<and>
        ex_start_time self = start_time \<and> ex_end_time self = end_time \<and>
        ex_reset_indices self = reset_indices \<and> ex_output_dir self = output_dir"
      by (intro vfe_init_fields) simp
    from vfe_extract_frames_events [OF x] show ?thesis
    proof
      assume "t' = [Probe (probe_command (ex_video_path self))] \<and> (\<exists>e. r' = Inl e)"
      with rt t0 nof f i Inr show ?thesis by auto
    next
      assume "\<exists>metadata od filter_args s e.
        fst (get_metadata w lib (ex_video_path self) (Some [''duration'', ''avg_fps'']))
          = Inr (Some metadata) \<and>
        ex_output_dir self = Some od \<and>
        validate_time_range lib (Some metadata) (ex_start_time self) (ex_end_time self)
          = Inr (s, e) \<and>
        t' = [Probe (probe_command (ex_video_path self)),
             Ffmpeg (ffmpeg_command (ex_video_path self) filter_args od s e (ex_reset_indices self))]"
      then obtain metadata od filter_args s e where
        md: "fst (get_metadata w lib video_path (Some [''duration'', ''avg_fps''])) = Inr (Some metadata)"
        and od: "output_dir = Some od"
        and vt: "validate_time_range lib (Some metadata) start_time end_time = Inr (s, e)"
        and t': "t' = [Probe (probe_command video_path),
             Ffmpeg (ffmpeg_command video_path filter_args od s e reset_indices)]"
        using f by auto
      have 1: "filter is_command t = [Probe (probe_command video_path),
             Ffmpeg (ffmpeg_command video_path filter_args od s e reset_indices)]"
        using rt t' t0 by simp
      have 4: "\<forall>c. Ffmpeg c \<in> set t \<longrightarrow>
        (\<exists>self t0 metadata od filter_args s e.
           vfe_init w video_path allow_any_extension output_dir fps start_time end_time
             strategy reset_indices = (Inr self, t0) \<and>
           fst (get_metadata w lib video_path (Some [''duration'', ''avg_fps''])) = Inr (Some metadata) \<and>
           output_dir = Some od \<and>
           validate_time_range lib (Some metadata) start_time end_time = Inr (s, e) \<and>
           c = ffmpeg_command video_path filter_args od s e reset_indices \<and>
           t = t0 @ [Probe (probe_command video_path), Ffmpeg c])"
      proof (intro allI impI)
        fix c assume "Ffmpeg c \<in> set t"
        with rt t' nof have c: "c = ffmpeg_command video_path filter_args od s e reset_indices"
          by auto
        with i Inr md od vt rt t' show "\<exists>self t0 metadata od filter_args s e.
           vfe_init w video_path allow_any_extension output_dir fps start_time end_time
             strategy reset_indices = (Inr self, t0) \<and>
           fst (get_metadata w lib video_path (Some [''duration'', ''avg_fps''])) = Inr (Some metadata) \<and>
           output_dir = Some od \<and>
           validate_time_range lib (Some metadata) start_time end_time = Inr (s, e) \<and>
           c = ffmpeg_command video_path filter_args od s e reset_indices \<and>
           t = t0 @ [Probe (probe_command video_path), Ffmpeg c]"
          by blast
      qed
      from 1 4 i Inr show ?thesis by auto
    qed
  qed
qed

theorem extraction_run_order_witness:
  "extraction_run sample_world sample_lib ''sample.mp4'' False (Some ''new'') (PInt 5)
      (Some (NInt 0)) None (AStrategy UniformFramesStrategy) False =
     (Inr (), [Mkdir ''new'', Probe (probe_command ''sample.mp4''),
               Ffmpeg (ffmpeg_command ''sample.mp4'' [Lit ''-vf'', Lit ''fps=5''] ''new'' (NInt 0) (NFloat (Fin 1)) False)]) \<and>
   filter is_command [Mkdir ''new'', Probe (probe_command ''sample.mp4''),
               Ffmpeg (ffmpeg_command ''sample.mp4'' [Lit ''-vf'', Lit ''fps=5''] ''new'' (NInt 0) (NFloat (Fin 1)) False)]
     = [Probe (probe_command ''sample.mp4''),
        Ffmpeg (ffmpeg_command ''sample.mp4'' [Lit ''-vf'', Lit ''fps=5''] ''new'' (NInt 0) (NFloat (Fin 1)) False)] \<and>
   (\<exists>self t0. vfe_init sample_world ''sample.mp4'' False (Some ''new'') (PInt 5) (Some (NInt 0)) None
        (AStrategy UniformFramesStrategy) False = (Inr self, t0)) \<and>
   vfe_init sample_world ''sample.mp4'' False (Some ''new'') (PInt 0) (Some (NInt 0)) None
        (AStrategy UniformFramesStrategy) False = (Inl ValueError, [Mkdir ''new'']) \<and>
   extraction_run sample_world sample_lib ''sample.mp4'' False (Some ''new'') (PInt 0)
      (Some (NInt 0)) None (AStrategy UniformFramesStrategy) False = (Inl ValueError, [Mkdir ''new'']) \<and>
   filter is_command [Mkdir ''new''] = []"
proof -
  have run: "extraction_run sample_world sample_lib ''sample.mp4'' False (Some ''new'') (PInt 5)
      (Some (NInt 0)) None (AStrategy UniformFramesStrategy) False =
     (Inr (), [Mkdir ''new'', Probe (probe_command ''sample.mp4''),
               Ffmpeg (ffmpeg_command ''sample.mp4'' [Lit ''-vf'', Lit ''fps=5''] ''new'' (NInt 0) (NFloat (Fin 1)) False)])"
    by code_simp
  have bad: "extraction_run sample_world sample_lib ''sample.mp4'' False (Some ''new'') (PInt 0)
      (Some (NInt 0)) None (AStrategy UniformFramesStrategy) False = (Inl ValueError, [Mkdir ''new''])"
    by code_simp
  have init: "vfe_init sample_world ''sample.mp4'' False (Some ''new'') (PInt 0)
      (Some (NInt 0)) None (AStrategy UniformFramesStrategy) False = (Inl ValueError, [Mkdir ''new''])"
    by code_simp
  have cmds: "filter is_command [Mkdir ''new'', Probe (probe_command ''sample.mp4''),
               Ffmpeg (ffmpeg_command ''sample.mp4'' [Lit ''-vf'', Lit ''fps=5''] ''new'' (NInt 0) (NFloat (Fin 1)) False)]
     = [Probe (probe_command ''sample.mp4''),
        Ffmpeg (ffmpeg_command ''sample.mp4'' [Lit ''-vf'', Lit ''fps=5''] ''new'' (NInt 0) (NFloat (Fin 1)) False)]"
    by simp
  from extraction_run_order [OF run] cmds
  have ok: "\<exists>self t0. vfe_init sample_world ''sample.mp4'' False (Some ''new'') (PInt 5) (Some (NInt 0)) None
        (AStrategy UniformFramesStrategy) False = (Inr self, t0)"
    by simp
  from extraction_run_order [OF bad] init
  have none: "filter is_command [Mkdir ''new''] = []" by blast
  from run cmds ok init bad none show ?thesis by blast
qed

section \<open>Metadata: the claims\<close>

lemma video_info_of_dom:
  assumes "video_info_of lib out = Inr info"
  shows "dom info = {''codec'', ''resolution'', ''avg_fps'', ''duration'', ''total_frames'', ''bitrate''}"
  using assms
  by (auto simp: video_info_of_def and_then_def Let_def split: sum.splits if_splits)

lemma sample_video_info:
  "video_info_of sample_lib ''probe output of sample.mp4'' =
     Inr [''codec'' \<mapsto> PStr ''h264'', ''resolution'' \<mapsto> PStr ''320x240'', ''avg_fps'' \<mapsto> PFloat (Fin 25),
          ''duration'' \<mapsto> PFloat (Fin 1), ''total_frames'' \<mapsto> PInt 25, ''bitrate'' \<mapsto> PInt 8]"
proof -
  have w: "str_int 320 = ''320''" by code_simp
  have h: "str_int 240 = ''240''" by code_simp
  show ?thesis
    by (simp add: sample_lib_def video_info_of_def and_then_def sample_stream_def w h)
qed

text \<open>
  C6, amended. When the probe succeeds and the whole body of \<open>get_metadata\<close> succeeds on
  its output (the JSON parses, a first stream exists, every field converts), then
  \<open>get_metadata\<close> called without \<open>fields\<close>, or with an empty list, returns the dictionary
  with exactly the keys \<open>codec\<close>, \<open>resolution\<close>, \<open>avg_fps\<close>, \<open>duration\<close>, \<open>total_frames\<close>
  and \<open>bitrate\<close>; called with a non-empty list it returns that dictionary restricted to
  the keys in the list. It returns a dictionary in no other case.
\<close>

theorem get_metadata_keys:
  "(run_probe w (probe_command video_path) = Inr out \<and> video_info_of lib out = Inr info \<longrightarrow>
      fst (get_metadata w lib video_path None) = Inr (Some info) \<and>
      fst (get_metadata w lib video_path (Some [])) = Inr (Some info) \<and>
      (fs \<noteq> [] \<longrightarrow> fst (get_metadata w lib video_path (Some fs)) = Inr (Some (info |` set fs))) \<and>
      dom info = {''codec'', ''resolution'', ''avg_fps'', ''duration'', ''total_frames'', ''bitrate''} \<and>
      dom (info |` set fs) =
        {''codec'', ''resolution'', ''avg_fps'', ''duration'', ''total_frames'', ''bitrate''} \<inter> set fs) \<and>
   (fst (get_metadata w lib video_path field_names) = Inr (Some d) \<longrightarrow>
      (\<exists>out' info'. run_probe w (probe_command video_path) = Inr out' \<and>
         video_info_of lib out' = Inr info'))"
proof -
  have ab: "run_probe w (probe_command video_path) = Inr out \<and> video_info_of lib out = Inr info \<longrightarrow>
      fst (get_metadata w lib video_path None) = Inr (Some info) \<and>
      fst (get_metadata w lib video_path (Some [])) = Inr (Some info) \<and>
      (fs \<noteq> [] \<longrightarrow> fst (get_metadata w lib video_path (Some fs)) = Inr (Some (info |` set fs))) \<and>
      dom info = {''codec'', ''resolution'', ''avg_fps'', ''duration'', ''total_frames'', ''bitrate''} \<and>
      dom (info |` set fs) =
        {''codec'', ''resolution'', ''avg_fps'', ''duration'', ''total_frames'', ''bitrate''} \<inter> set fs"
  proof
    assume h: "run_probe w (probe_command video_path) = Inr out \<and> video_info_of lib out = Inr info"
    from h have p: "run_probe w (probe_command video_path) = Inr out" by (rule conjunct1)
    from h have v: "video_info_of lib out = Inr info" by (rule conjunct2)
    have a1: "fst (get_metadata w lib video_path None) = Inr (Some info)"
      by (simp add: get_metadata_def Let_def and_then_def p v)
    have a2: "fst (get_metadata w lib video_path (Some [])) = Inr (Some info)"
      by (simp add: get_metadata_def Let_def and_then_def p v)
    have a3: "fs \<noteq> [] \<longrightarrow>
        fst (get_metadata w lib video_path (Some fs)) = Inr (Some (info |` set fs))"
      by (simp add: get_metadata_def Let_def and_then_def p v)
    have k: "dom info = {''codec'', ''resolution'', ''avg_fps'', ''duration'', ''total_frames'', ''bitrate''}"
      using v by (rule video_info_of_dom)
    have k2: "dom (info |` set fs) =
        {''codec'', ''resolution'', ''avg_fps'', ''duration'', ''total_frames'', ''bitrate''} \<inter> set fs"
      by (simp only: dom_restrict k)
    show "fst (get_metadata w lib video_path None) = Inr (Some info) \<and>
      fst (get_metadata w lib video_path (Some [])) = Inr (Some info) \<and>
      (fs \<noteq> [] \<longrightarrow> fst (get_metadata w lib video_path (Some fs)) = Inr (Some (info |` set fs))) \<and>
      dom info = {''codec'', ''resolution'', ''avg_fps'', ''duration'', ''total_frames'', ''bitrate''} \<and>
      dom (info |` set fs) =
        {''codec'', ''resolution'', ''avg_fps'', ''duration'', ''total_frames'', ''bitrate''} \<inter> set fs"
      by (rule conjI [OF a1 conjI [OF a2 conjI [OF a3 conjI [OF k k2]]]])
  qed
  have c: "fst (get_metadata w lib video_path field_names) = Inr (Some d) \<longrightarrow>
      (\<exists>out' info'. run_probe w (probe_command video_path) = Inr out' \<and>
         video_info_of lib out' = Inr info')"
    by (auto simp: get_metadata_def Let_def and_then_def split: sum.splits)
  show ?thesis by (rule conjI [OF ab c])
qed

theorem get_metadata_keys_witness:
  "run_probe sample_world (probe_command ''sample.mp4'') = Inr ''probe output of sample.mp4'' \<and>
   fst (get_metadata sample_world sample_lib ''sample.mp4'' (Some [''duration'', ''avg_fps'']))
     = Inr (Some ([''codec'' \<mapsto> PStr ''h264'', ''resolution'' \<mapsto> PStr ''320x240'',
                   ''avg_fps'' \<mapsto> PFloat (Fin 25), ''duration'' \<mapsto> PFloat (Fin 1),
                   ''total_frames'' \<mapsto> PInt 25, ''bitrate'' \<mapsto> PInt 8]
                  |` set [''duration'', ''avg_fps''])) \<and>
   fst (get_metadata sample_world sample_lib ''sample.mp4'' None)
     = Inr (Some [''codec'' \<mapsto> PStr ''h264'', ''resolution'' \<mapsto> PStr ''320x240'',
                  ''avg_fps'' \<mapsto> PFloat (Fin 25), ''duration'' \<mapsto> PFloat (Fin 1),
                  ''total_frames'' \<mapsto> PInt 25, ''bitrate'' \<mapsto> PInt 8])"
proof -
  have p: "run_probe sample_world (probe_command ''sample.mp4'') = Inr ''probe output of sample.mp4''"
    by (simp add: sample_world_def)
  have ne: "[''duration'', ''avg_fps''] \<noteq> []" by simp
  note t = get_metadata_keys [where w = sample_world and lib = sample_lib
      and video_path = "''sample.mp4''" and out = "''probe output of sample.mp4''"
      and fs = "[''duration'', ''avg_fps'']", THEN conjunct1, THEN mp,
      OF conjI [OF p sample_video_info]]
  from t have a: "fst (get_metadata sample_world sample_lib ''sample.mp4'' None)
     = Inr (Some [''codec'' \<mapsto> PStr ''h264'', ''resolution'' \<mapsto> PStr ''320x240'',
                  ''avg_fps'' \<mapsto> PFloat (Fin 25), ''duration'' \<mapsto> PFloat (Fin 1),
                  ''total_frames'' \<mapsto> PInt 25, ''bitrate'' \<mapsto> PInt 8])"
    by (rule conjunct1)
  from t have b: "[''duration'', ''avg_fps''] \<noteq> [] \<longrightarrow>
     fst (get_metadata sample_world sample_lib ''sample.mp4'' (Some [''duration'', ''avg_fps'']))
     = Inr (Some ([''codec'' \<mapsto> PStr ''h264'', ''resolution'' \<mapsto> PStr ''320x240'',
                   ''avg_fps'' \<mapsto> PFloat (Fin 25), ''duration'' \<mapsto> PFloat (Fin 1),
                   ''total_frames'' \<mapsto> PInt 25, ''bitrate'' \<mapsto> PInt 8]
                  |` set [''duration'', ''avg_fps'']))"
    by (rule conjunct1 [OF conjunct2 [OF conjunct2]])
  show ?thesis by (rule conjI [OF p conjI [OF mp [OF b ne] a]])
qed

text \<open>
  The claim as stated fails in two places. For a file without a video stream the probe
  succeeds and its output parses, yet the list of streams is empty and the result is
  \<open>None\<close>, not a dictionary. And with the empty list as \<open>fields\<close> the result is the full
  dictionary, not the empty subset.
\<close>

theorem get_metadata_keys_counterexample:
  "run_probe sample_world (probe_command ''audio.mp4'') = Inr ''probe output of audio.mp4'' \<and>
   json_loads sample_lib ''probe output of audio.mp4''
     = Inr (PDict [(''programs'', PList []), (''streams'', PList [])]) \<and>
   fst (get_metadata sample_world sample_lib ''audio.mp4'' None) = Inr None \<and>
   fst (get_metadata sample_world sample_lib ''sample.mp4'' (Some []))
     = fst (get_metadata sample_world sample_lib ''sample.mp4'' None) \<and>
   fst (get_metadata sample_world sample_lib ''sample.mp4'' (Some [])) \<noteq> Inr None \<and>
   fst (get_metadata sample_world sample_lib ''sample.mp4'' (Some [])) \<noteq> Inr (Some Map.empty)"
proof -
  have 1: "run_probe sample_world (probe_command ''audio.mp4'') = Inr ''probe output of audio.mp4''"
    by (simp add: sample_world_def probe_command_def)
  have 2: "json_loads sample_lib ''probe output of audio.mp4''
     = Inr (PDict [(''programs'', PList []), (''streams'', PList [])])"
    by (simp add: sample_lib_def)
  have 3: "fst (get_metadata sample_world sample_lib ''audio.mp4'' None) = Inr None"
    by (simp add: get_metadata_def Let_def sample_world_def sample_lib_def video_info_of_def
        and_then_def probe_command_def)
  have 4: "fst (get_metadata sample_world sample_lib ''sample.mp4'' (Some []))
     = fst (get_metadata sample_world sample_lib ''sample.mp4'' None)"
    by (simp add: get_metadata_def Let_def)
  have 5: "fst (get_metadata sample_world sample_lib ''sample.mp4'' (Some [])) \<noteq> Inr None"
    by (simp add: get_metadata_def Let_def sample_world_def sample_lib_def video_info_of_def
        and_then_def sample_stream_def)
  have 6: "fst (get_metadata sample_world sample_lib ''sample.mp4'' (Some [])) \<noteq> Inr (Some Map.empty)"
    by (simp add: get_metadata_def Let_def sample_world_def sample_lib_def video_info_of_def
        and_then_def sample_stream_def)
  show ?thesis by (rule conjI [OF 1 conjI [OF 2 conjI [OF 3 conjI [OF 4 conjI [OF 5 6]]]]])
qed

text \<open>
  C10. \<open>get_metadata\<close> never raises: it always returns, and it returns \<open>None\<close> when the
  probe invocation fails, when the JSON does not parse, and when anything in the body
  (the extraction or conversion of a field) fails. When it returns \<open>None\<close>,
  \<open>VideoFrameExtractor.extract_frames\<close> raises \<open>ValueError\<close> with the probe as the only
  event: the strategy is not called.
\<close>

theorem get_metadata_never_raises:
  "(\<exists>m. fst (get_metadata w lib video_path field_names) = Inr m) \<and>
   (run_probe w (probe_command video_path) = Inl e \<longrightarrow>
      fst (get_metadata w lib video_path field_names) = Inr None) \<and>
   (run_probe w (probe_command video_path) = Inr out \<and> json_loads lib out = Inl e \<longrightarrow>
      fst (get_metadata w lib video_path field_names) = Inr None) \<and>
   (run_probe w (probe_command video_path) = Inr out \<and> video_info_of lib out = Inl e \<longrightarrow>
      fst (get_metadata w lib video_path field_names) = Inr None) \<and>
   (fst (get_metadata w lib (ex_video_path self) (Some [''duration'', ''avg_fps''])) = Inr None \<longrightarrow>
      vfe_extract_frames w lib self
        = (Inl ValueError, [Probe (probe_command (ex_video_path self))]))"
proof -
  have 1: "\<exists>m. fst (get_metadata w lib video_path field_names) = Inr m"
    by (rule get_metadata_returns)
  have 2: "run_probe w (probe_command video_path) = Inl e \<longrightarrow>
      fst (get_metadata w lib video_path field_names) = Inr None"
    by (simp add: get_metadata_def Let_def and_then_def)
  have 3: "run_probe w (probe_command video_path) = Inr out \<and> json_loads lib out = Inl e \<longrightarrow>
      fst (get_metadata w lib video_path field_names) = Inr None"
    by (simp add: get_metadata_def Let_def and_then_def video_info_of_def)
  have 4: "run_probe w (probe_command video_path) = Inr out \<and> video_info_of lib out = Inl e \<longrightarrow>
      fst (get_metadata w lib video_path field_names) = Inr None"
    by (simp add: get_metadata_def Let_def and_then_def)
  have 5: "fst (get_metadata w lib (ex_video_path self) (Some [''duration'', ''avg_fps''])) = Inr None \<longrightarrow>
      vfe_extract_frames w lib self
        = (Inl ValueError, [Probe (probe_command (ex_video_path self))])"
  proof
    assume n: "fst (get_metadata w lib (ex_video_path self) (Some [''duration'', ''avg_fps''])) = Inr None"
    have ev: "snd (get_metadata w lib (ex_video_path self) (Some [''duration'', ''avg_fps'']))
        = [Probe (probe_command (ex_video_path self))]"
      by (rule get_metadata_events)
    from n ev have "get_metadata w lib (ex_video_path self) (Some [''duration'', ''avg_fps''])
        = (Inr None, [Probe (probe_command (ex_video_path self))])"
      by (cases "get_metadata w lib (ex_video_path self) (Some [''duration'', ''avg_fps''])") simp
    then show "vfe_extract_frames w lib self
        = (Inl ValueError, [Probe (probe_command (ex_video_path self))])"
      by (simp add: vfe_extract_frames_def)
  qed
  show ?thesis by (rule conjI [OF 1 conjI [OF 2 conjI [OF 3 conjI [OF 4 5]]]])
qed

theorem get_metadata_never_raises_witness:
  "run_probe sample_world (probe_command ''audio.mp4'') = Inr ''probe output of audio.mp4'' \<and>
   video_info_of sample_lib ''probe output of audio.mp4'' = Inl IndexError \<and>
   fst (get_metadata sample_world sample_lib ''audio.mp4'' (Some [''duration'', ''avg_fps'']))
     = Inr None \<and>
   run_probe sample_world (probe_command ''missing.mp4'') = Inl CalledProcessError \<and>
   fst (get_metadata sample_world sample_lib ''missing.mp4'' None) = Inr None \<and>
   vfe_extract_frames sample_world sample_lib
       \<lparr>ex_video_path = ''audio.mp4'', ex_output_dir = Some ''out'', ex_fps = PNone,
        ex_start_time = None, ex_end_time = None, ex_strategy = AllFramesStrategy,
        ex_reset_indices = False\<rparr>
     = (Inl ValueError, [Probe (probe_command ''audio.mp4'')])"
proof -
  have p: "run_probe sample_world (probe_command ''audio.mp4'') = Inr ''probe output of audio.mp4''"
    by (simp add: sample_world_def probe_command_def)
  have v: "video_info_of sample_lib ''probe output of audio.mp4'' = Inl IndexError"
    by (simp add: sample_lib_def video_info_of_def and_then_def)
  have q: "run_probe sample_world (probe_command ''missing.mp4'') = Inl CalledProcessError"
    by (simp add: sample_world_def probe_command_def)
  have a: "fst (get_metadata sample_world sample_lib ''audio.mp4'' (Some [''duration'', ''avg_fps'']))
     = Inr None"
    by (rule get_metadata_never_raises [where w = sample_world and lib = sample_lib
          and video_path = "''audio.mp4''" and out = "''probe output of audio.mp4''"
          and e = IndexError, THEN conjunct2, THEN conjunct2, THEN conjunct2, THEN conjunct1,
          THEN mp, OF conjI [OF p v]])
  have b: "fst (get_metadata sample_world sample_lib ''missing.mp4'' None) = Inr None"
    by (rule get_metadata_never_raises [where w = sample_world and lib = sample_lib
          and video_path = "''missing.mp4''" and e = CalledProcessError,
          THEN conjunct2, THEN conjunct1, THEN mp, OF q])
  have a': "fst (get_metadata sample_world sample_lib
       (ex_video_path \<lparr>ex_video_path = ''audio.mp4'', ex_output_dir = Some ''out'', ex_fps = PNone,
        ex_start_time = None, ex_end_time = None, ex_strategy = AllFramesStrategy,
        ex_reset_indices = False\<rparr>) (Some [''duration'', ''avg_fps''])) = Inr None"
    using a by simp
  have c: "vfe_extract_frames sample_world sample_lib
       \<lparr>ex_video_path = ''audio.mp4'', ex_output_dir = Some ''out'', ex_fps = PNone,
        ex_start_time = None, ex_end_time = None, ex_strategy = AllFramesStrategy,
        ex_reset_indices = False\<rparr>
     = (Inl ValueError, [Probe (probe_command ''audio.mp4'')])"
    using get_metadata_never_raises [where w = sample_world and lib = sample_lib
          and self = "\<lparr>ex_video_path = ''audio.mp4'', ex_output_dir = Some ''out'', ex_fps = PNone,
        ex_start_time = None, ex_end_time = None, ex_strategy = AllFramesStrategy,
        ex_reset_indices = False\<rparr>", THEN conjunct2, THEN conjunct2, THEN conjunct2,
          THEN conjunct2, THEN mp, OF a']
    by simp
  show ?thesis by (rule conjI [OF p conjI [OF v conjI [OF a conjI [OF q conjI [OF b c]]]]])
qed

end
